(* ===== verification/Prelude.thy ===== *)
theory Prelude
  imports Main
begin

text \<open>
  Shared vocabulary of the development: the named collections of facts the
  component theories contribute to, the JavaScript notions every component
  needs (truthiness of an optional string, the string concatenation of
  template literals), and generic lemmas on lists and options.
\<close>

named_theorems js_simps \<open>evaluation rules of the JavaScript helpers\<close>
named_theorems api_simps \<open>equations of the API client, one per operation\<close>
named_theorems view_simps \<open>equations of the view controllers' handlers\<close>

section \<open>JavaScript values the components share\<close>

text \<open>
  A TypeScript \<open>string | null | undefined\<close> is a \<^typ>\<open>string option\<close>:
  \<open>None\<close> is \<open>null\<close> or \<open>undefined\<close>. In a condition (\<open>if (token)\<close>,
  \<open>!token\<close>) such a value is truthy when it is a non-empty string.
\<close>

definition str_truthy :: "string option \<Rightarrow> bool" where
  "str_truthy s = (case s of None \<Rightarrow> False | Some v \<Rightarrow> v \<noteq> [])"

text \<open>\<open>xs.join(sep)\<close> on a list of strings.\<close>

fun js_join :: "string \<Rightarrow> string list \<Rightarrow> string" where
  "js_join sep [] = []"
| "js_join sep [x] = x"
| "js_join sep (x # y # zs) = x @ sep @ js_join sep (y # zs)"

section \<open>Lemmas on the JavaScript helpers\<close>

lemma str_truthy_simps [simp, js_simps]:
  "str_truthy None = False"
  "str_truthy (Some v) = (v \<noteq> [])"
  by (simp_all add: str_truthy_def)

lemma str_truthy_Some_nonempty [intro]:
  "v \<noteq> [] \<Longrightarrow> str_truthy (Some v)"
  by simp

lemma str_truthy_obtain:
  "str_truthy s \<Longrightarrow> \<exists>v. s = Some v \<and> v \<noteq> []"
  by (cases s) auto

lemma js_join_Cons_Cons [simp]:
  "xs \<noteq> [] \<Longrightarrow> js_join sep (x # xs) = x @ sep @ js_join sep xs"
  by (cases xs) auto

section \<open>Generic lemmas\<close>

lemma sum_case_Inl_eq [simp]:
  "(case s of Inl e \<Rightarrow> Inl e | Inr v \<Rightarrow> f v) = Inl e' \<longleftrightarrow>
     s = Inl e' \<or> (\<exists>v. s = Inr v \<and> f v = Inl e')"
  by (cases s) auto

lemma sum_case_Inr_eq [simp]:
  "(case s of Inl e \<Rightarrow> Inl e | Inr v \<Rightarrow> f v) = Inr r \<longleftrightarrow>
     (\<exists>v. s = Inr v \<and> f v = Inr r)"
  by (cases s) auto

lemma find_None_iff_all:
  "find P xs = None \<longleftrightarrow> (\<forall>x \<in> set xs. \<not> P x)"
  by (induction xs) auto

lemma find_Some_in:
  "find P xs = Some x \<Longrightarrow> x \<in> set xs \<and> P x"
  by (induction xs) (auto split: if_splits)

end
