(* ===== verification/Routes.thy ===== *)
theory Routes
  imports Prelude
begin

text \<open>
  Client-side routing and the route guard of \<open>src/src/App.tsx\<close>. A path is
  matched against the route table as React Router v6 does: each route path is
  compiled to a case-insensitive pattern, \<open>/book/:id\<close> to
  \<open>^/book/([^/]+)/*$\<close>. So after the leading slash the segments are
  compared one by one, trailing slashes are ignored, an empty segment
  elsewhere matches nothing, static segments compare without regard to case
  and a \<open>:id\<close> segment matches any non-empty segment. The guard reads only
  \<open>isAuthenticated\<close>, which is its Boolean argument.
\<close>

section \<open>Paths and the route table\<close>

fun split_on :: "char \<Rightarrow> string \<Rightarrow> string list" where
  "split_on c [] = [[]]"
| "split_on c (x # xs) =
     (if x = c then [] # split_on c xs
      else (case split_on c xs of s # ss \<Rightarrow> (x # s) # ss | [] \<Rightarrow> [[x]]))"

text \<open>The segments after the leading slash, without the trailing empty ones (\<open>/*$\<close>).\<close>

definition path_segments :: "string \<Rightarrow> string list" where
  "path_segments p = rev (dropWhile (\<lambda>s. s = []) (rev (tl (split_on CHR ''/'' p))))"

definition lower_ascii :: "char \<Rightarrow> char" where
  "lower_ascii c =
     (if 65 \<le> (of_char c :: nat) \<and> (of_char c :: nat) \<le> 90 then char_of (of_char c + (32::nat)) else c)"

definition seg_is :: "string \<Rightarrow> string \<Rightarrow> bool" where
  "seg_is lit s \<longleftrightarrow> map lower_ascii s = lit"

text \<open>The \<open><Route>\<close> elements of \<open>AppContent\<close>, in order.\<close>

datatype route = RHome | RLogin | RSignup | RBook string | RAddBook | REditBook string | RProfile

fun match_segments :: "string list \<Rightarrow> route option" where
  "match_segments [] = Some RHome"
| "match_segments [a] =
     (if seg_is ''login'' a then Some RLogin
      else if seg_is ''signup'' a then Some RSignup
      else if seg_is ''add-book'' a then Some RAddBook
      else if seg_is ''profile'' a then Some RProfile
      else None)"
| "match_segments [a, i] =
     (if seg_is ''book'' a then Some (RBook i)
      else if seg_is ''edit-book'' a then Some (REditBook i)
      else None)"
| "match_segments _ = None"

text \<open>A location's pathname starts with a slash; every pattern does too.\<close>

definition match_route :: "string \<Rightarrow> route option" where
  "match_route p = (if p \<noteq> [] \<and> hd p = CHR ''/'' then match_segments (path_segments p) else None)"

section \<open>Views and the guard\<close>

datatype view =
    HomeView | LoginView | SignupView | BookDetailView string
  | BookFormView "string option" | ProfileView

text \<open>The element each route renders; \<open>BookForm\<close> reads \<open>:id\<close> when present.\<close>

fun route_element :: "route \<Rightarrow> view" where
  "route_element RHome = HomeView"
| "route_element RLogin = LoginView"
| "route_element RSignup = SignupView"
| "route_element (RBook i) = BookDetailView i"
| "route_element RAddBook = BookFormView None"
| "route_element (REditBook i) = BookFormView (Some i)"
| "route_element RProfile = ProfileView"

text \<open>The routes whose element is wrapped in \<open><ProtectedRoute>\<close>.\<close>

fun protected :: "route \<Rightarrow> bool" where
  "protected RAddBook = True"
| "protected (REditBook _) = True"
| "protected RProfile = True"
| "protected _ = False"

datatype outcome = Render view | Redirect string | NoMatch

text \<open>\<open>ProtectedRoute\<close>: the children when authenticated, else \<open><Navigate to="/login"/>\<close>.\<close>

definition protected_route :: "bool \<Rightarrow> view \<Rightarrow> outcome" where
  "protected_route is_auth v = (if is_auth then Render v else Redirect ''/login'')"

definition app_routes :: "bool \<Rightarrow> string \<Rightarrow> outcome" where
  "app_routes is_auth p =
     (case match_route p of
        None \<Rightarrow> NoMatch
      | Some r \<Rightarrow> if protected r then protected_route is_auth (route_element r) else Render (route_element r))"

text \<open>
  A \<open><Navigate>\<close> starts a new navigation; \<open>navigate\<close> follows redirects
  with a bound on their number, \<open>None\<close> when the bound is exhausted.
\<close>

fun navigate :: "nat \<Rightarrow> bool \<Rightarrow> string \<Rightarrow> outcome option" where
  "navigate 0 is_auth p = None"
| "navigate (Suc n) is_auth p =
     (case app_routes is_auth p of Redirect q \<Rightarrow> navigate n is_auth q | out \<Rightarrow> Some out)"

section \<open>Lemmas\<close>

lemma app_routes_match:
  "match_route p = Some r \<Longrightarrow>
     app_routes is_auth p =
       (if protected r \<and> \<not> is_auth then Redirect ''/login'' else Render (route_element r))"
  by (simp add: app_routes_def protected_route_def)

lemma match_route_login [simp]: "match_route ''/login'' = Some RLogin"
  by (simp add: match_route_def path_segments_def seg_is_def lower_ascii_def)

lemma app_routes_login [simp]: "app_routes is_auth ''/login'' = Render LoginView"
  by (simp add: app_routes_def)

lemma app_routes_not_redirect_login:
  "app_routes is_auth p = Redirect q \<Longrightarrow> q = ''/login''"
  by (auto simp: app_routes_def protected_route_def split: option.splits if_splits)

lemma split_on_no_sep: "c \<notin> set s \<Longrightarrow> split_on c s = [s]"
  by (induction s) auto

lemma split_on_append_sep:
  "c \<notin> set a \<Longrightarrow> split_on c (a @ c # r) = a # split_on c r"
  by (induction a) auto

lemma path_segments_two:
  assumes "a \<noteq> []" "CHR ''/'' \<notin> set a" "i \<noteq> []" "CHR ''/'' \<notin> set i"
  shows "path_segments (CHR ''/'' # a @ CHR ''/'' # i) = [a, i]"
  using assms by (simp add: path_segments_def split_on_append_sep split_on_no_sep)

lemma match_route_two:
  assumes "a \<noteq> []" "CHR ''/'' \<notin> set a" "i \<noteq> []" "CHR ''/'' \<notin> set i"
  shows "match_route (CHR ''/'' # a @ CHR ''/'' # i) = match_segments [a, i]"
  using assms by (simp add: match_route_def path_segments_two)

lemma match_route_edit:
  "i \<noteq> [] \<Longrightarrow> CHR ''/'' \<notin> set i \<Longrightarrow> match_route (''/edit-book/'' @ i) = Some (REditBook i)"
  using match_route_two [of "''edit-book''" i] by (simp add: seg_is_def lower_ascii_def)

section \<open>Properties of the guard and of navigation\<close>

text \<open>
  C1: the guard on the three protected paths of the specification
  (\<open>/add-book\<close>, \<open>/edit-book/:id\<close>, \<open>/profile\<close>): the requested view is
  rendered when the session is authenticated, and the user is redirected to
  \<open>/login\<close> otherwise.
\<close>

theorem guard_protected_paths:
  assumes "i \<noteq> []" and "CHR ''/'' \<notin> set i"
  shows "app_routes a ''/add-book'' = (if a then Render (BookFormView None) else Redirect ''/login'') \<and>
         app_routes a (''/edit-book/'' @ i) = (if a then Render (BookFormView (Some i)) else Redirect ''/login'') \<and>
         app_routes a ''/profile'' = (if a then Render ProfileView else Redirect ''/login'')"
proof -
  have "match_route ''/add-book'' = Some RAddBook" "match_route ''/profile'' = Some RProfile"
    by (simp_all add: match_route_def path_segments_def seg_is_def lower_ascii_def)
  moreover have "match_route (''/edit-book/'' @ i) = Some (REditBook i)"
    using assms by (rule match_route_edit)
  ultimately show ?thesis by (simp add: app_routes_match)
qed

theorem guard_protected_paths_witness:
  "app_routes False (''/edit-book/'' @ ''b7'') = Redirect ''/login'' \<and>
   app_routes True (''/edit-book/'' @ ''b7'') = Render (BookFormView (Some ''b7''))"
  using guard_protected_paths [of "''b7''" False] guard_protected_paths [of "''b7''" True] by simp

text \<open>
  C2: the router redirects exactly on the three routes the specification
  protects (\<open>/add-book\<close>, \<open>/edit-book/:id\<close>, \<open>/profile\<close>) while the
  session is not authenticated, and always to \<open>/login\<close>: every other path,
  \<open>/book/:id\<close> included, is served without a redirect.
\<close>

theorem guard_redirect_only_protected:
  "app_routes a p = Redirect q \<longleftrightarrow>
     \<not> a \<and> q = ''/login'' \<and>
     (match_route p = Some RAddBook \<or> match_route p = Some RProfile \<or> (\<exists>i. match_route p = Some (REditBook i)))"
proof (cases "match_route p")
  case None
  then show ?thesis by (simp add: app_routes_def)
next
  case (Some r)
  then show ?thesis by (cases r) (auto simp: app_routes_match)
qed

theorem guard_redirect_only_protected_witness:
  "app_routes False ''/profile'' = Redirect ''/login'' \<and> app_routes False ''/book/b7'' \<noteq> Redirect ''/login''"
proof -
  have p: "match_route ''/profile'' = Some RProfile"
    by (simp add: match_route_def path_segments_def seg_is_def lower_ascii_def)
  have b: "match_route ''/book/b7'' = Some (RBook ''b7'')"
    by (simp add: match_route_def path_segments_def seg_is_def lower_ascii_def)
  show ?thesis
    using guard_redirect_only_protected [of False "''/profile''" "''/login''"]
      guard_redirect_only_protected [of False "''/book/b7''" "''/login''"]
    by (simp add: p b)
qed

text \<open>
  C12: following redirects ends after at most two navigations, in a rendered
  view or an unmatched path, never in a further redirect: \<open>/login\<close> is not
  protected, so the guard cannot loop.
\<close>

theorem navigate_two_steps:
  "2 \<le> n \<Longrightarrow> \<exists>out. navigate n a p = Some out \<and> (\<forall>q. out \<noteq> Redirect q)"
proof -
  assume "2 \<le> n"
  then obtain m where n: "n = Suc (Suc m)" by (metis add_2_eq_Suc le_Suc_ex)
  show ?thesis
  proof (cases "app_routes a p")
    case (Redirect q)
    then have "q = ''/login''" by (rule app_routes_not_redirect_login)
    with Redirect n show ?thesis by simp
  qed (simp_all add: n)
qed

theorem navigate_two_steps_witness:
  "\<exists>out. navigate 2 False ''/profile'' = Some out \<and> (\<forall>q. out \<noteq> Redirect q)"
  using navigate_two_steps [of 2 False "''/profile''"] by simp


end
