(* ===== verification/Json.thy ===== *)
theory Json
  imports Prelude
begin

text \<open>
  The JavaScript values that cross the API boundary: JSON documents as
  \<open>res.json()\<close> returns them, the property read \<open>v.f\<close>, truthiness and
  \<open>a || b\<close>, the conversion \<open>String(v)\<close> that \<open>new Error(v)\<close> applies, the
  decimal printing of integers that template literals and \<open>toString()\<close>
  perform, and \<open>parseInt\<close>. Numbers are integers here: every number the
  program computes with (page numbers, years, ratings, counts) is one.
\<close>

datatype json =
    JNull
  | JBool bool
  | JNum int
  | JStr string
  | JArr "json list"
  | JObj "(string \<times> json) list"

section \<open>Property reads\<close>

text \<open>
  \<open>v.f\<close>: on an object, the value of key \<open>f\<close>, the last one when
  \<open>JSON.parse\<close> met the key twice; \<open>undefined\<close> (\<open>None\<close>) on other
  non-null values; a \<open>TypeError\<close> on \<open>null\<close>.
\<close>

datatype js_exn = TypeError

fun js_get :: "json \<Rightarrow> string \<Rightarrow> js_exn + json option" where
  "js_get JNull f = Inl TypeError"
| "js_get (JObj kvs) f = Inr (map_of (rev kvs) f)"
| "js_get v f = Inr None"

section \<open>Truthiness and \<open>||\<close>\<close>

fun js_truthy :: "json \<Rightarrow> bool" where
  "js_truthy JNull = False"
| "js_truthy (JBool b) = b"
| "js_truthy (JNum n) = (n \<noteq> 0)"
| "js_truthy (JStr s) = (s \<noteq> [])"
| "js_truthy (JArr xs) = True"
| "js_truthy (JObj kvs) = True"

text \<open>\<open>a || b\<close> where \<open>a\<close> may be \<open>undefined\<close>.\<close>

definition js_or :: "json option \<Rightarrow> json \<Rightarrow> json" where
  "js_or a b = (case a of Some v \<Rightarrow> if js_truthy v then v else b | None \<Rightarrow> b)"

section \<open>Reading typed fields\<close>

text \<open>
  A view reads \<open>data.f\<close> and uses it as the type its TypeScript interface
  declares; these read a field of that type, \<open>None\<close> when the field is
  missing or of another type.
\<close>

definition obj_field :: "json \<Rightarrow> string \<Rightarrow> json option" where
  "obj_field v f = (case js_get v f of Inr r \<Rightarrow> r | Inl _ \<Rightarrow> None)"

definition json_str :: "json option \<Rightarrow> string option" where
  "json_str v = (case v of Some (JStr s) \<Rightarrow> Some s | _ \<Rightarrow> None)"

definition json_int :: "json option \<Rightarrow> int option" where
  "json_int v = (case v of Some (JNum n) \<Rightarrow> Some n | _ \<Rightarrow> None)"

text \<open>
  The own properties of the object \<open>JSON.parse\<close> builds from a member
  list: each key once, holding the value of its last occurrence (what
  \<open>Object.values\<close> and \<open>Object.entries\<close> see).
\<close>

definition json_entries :: "(string \<times> json) list \<Rightarrow> (string \<times> json) list" where
  "json_entries kvs = map (\<lambda>k. (k, the (map_of (rev kvs) k))) (remdups (map fst kvs))"

section \<open>Decimal printing\<close>

text \<open>\<open>String(n)\<close> for an integer \<open>n\<close>: its shortest decimal form.\<close>

fun string_of_nat :: "nat \<Rightarrow> string" where
  "string_of_nat n =
     (if n < 10 then [char_of (48 + n)]
      else string_of_nat (n div 10) @ [char_of (48 + n mod 10)])"

definition string_of_int :: "int \<Rightarrow> string" where
  "string_of_int i =
     (if i < 0 then CHR ''-'' # string_of_nat (nat (- i)) else string_of_nat (nat i))"

declare string_of_nat.simps [simp del]

section \<open>\<open>String(v)\<close>\<close>

text \<open>
  \<open>String(v)\<close>: arrays print as their elements joined by commas (\<open>null\<close>
  elements as the empty string), objects as \<open>[object Object]\<close>.
\<close>

fun js_to_string :: "json \<Rightarrow> string" where
  "js_to_string JNull = ''null''"
| "js_to_string (JBool b) = (if b then ''true'' else ''false'')"
| "js_to_string (JNum n) = string_of_int n"
| "js_to_string (JStr s) = s"
| "js_to_string (JArr xs) =
     js_join '','' (map (\<lambda>x. if x = JNull then [] else js_to_string x) xs)"
| "js_to_string (JObj kvs) = ''[object Object]''"

section \<open>\<open>parseInt\<close>\<close>

text \<open>
  \<open>parseInt(s)\<close> without a radix: leading white space is skipped, an
  optional sign is read, a \<open>0x\<close> or \<open>0X\<close> prefix selects base 16,
  and the longest prefix of digits of the base is read; without a digit the
  result is \<open>NaN\<close> (\<open>None\<close>). White space is JavaScript's white space
  and line terminators as far as an 8-bit \<^typ>\<open>char\<close> reaches: tab, the
  line feeds, space and the no-break space U+00A0 (the other Unicode spaces
  lie beyond the character type of this model).
\<close>

definition js_space :: "char \<Rightarrow> bool" where
  "js_space c = (of_char c \<in> {32::nat, 9, 10, 11, 12, 13, 160})"

fun digit_val :: "nat \<Rightarrow> char \<Rightarrow> nat option" where
  "digit_val radix c =
     (let k = of_char c :: nat in
      let d = (if 48 \<le> k \<and> k \<le> 57 then Some (k - 48)
               else if 97 \<le> k \<and> k \<le> 122 then Some (k - 87)
               else if 65 \<le> k \<and> k \<le> 90 then Some (k - 55)
               else None) in
      case d of Some v \<Rightarrow> if v < radix then Some v else None | None \<Rightarrow> None)"

fun digit_prefix :: "nat \<Rightarrow> string \<Rightarrow> nat list" where
  "digit_prefix radix [] = []"
| "digit_prefix radix (c # cs) =
     (case digit_val radix c of None \<Rightarrow> [] | Some d \<Rightarrow> d # digit_prefix radix cs)"

definition digits_value :: "nat \<Rightarrow> nat list \<Rightarrow> nat" where
  "digits_value radix ds = foldl (\<lambda>a d. a * radix + d) 0 ds"

definition parse_unsigned :: "string \<Rightarrow> nat option" where
  "parse_unsigned s =
     (let (radix, body) =
        (case s of
           c0 # c1 # rest \<Rightarrow>
             if c0 = CHR ''0'' \<and> (c1 = CHR ''x'' \<or> c1 = CHR ''X'') then (16, rest) else (10, s)
         | _ \<Rightarrow> (10, s)) in
      let ds = digit_prefix radix body in
      if ds = [] then None else Some (digits_value radix ds))"

definition js_parseInt :: "string \<Rightarrow> int option" where
  "js_parseInt s =
     (let t = dropWhile js_space s in
      case t of
        c # rest \<Rightarrow>
          if c = CHR ''-'' then map_option (\<lambda>n. - int n) (parse_unsigned rest)
          else if c = CHR ''+'' then map_option int (parse_unsigned rest)
          else map_option int (parse_unsigned t)
      | [] \<Rightarrow> None)"

section \<open>Lemmas\<close>

lemmas field_defs = obj_field_def json_str_def json_int_def

lemma js_get_obj_last [simp]:
  "js_get (JObj (kvs @ [(f, v)])) f = Inr (Some v)"
  by simp

lemma js_or_simps [simp, js_simps]:
  "js_or None b = b"
  "js_or (Some v) b = (if js_truthy v then v else b)"
  by (simp_all add: js_or_def)

subsection \<open>Printing and parsing integers\<close>

lemma of_char_digit: "d < 10 \<Longrightarrow> (of_char (char_of (48 + d)) :: nat) = 48 + d"
  by (simp add: of_char_of)

lemma digit_val_digit: "d < 10 \<Longrightarrow> digit_val 10 (char_of (48 + d)) = Some d"
  by (simp add: of_char_digit)

lemma string_of_nat_chars: "c \<in> set (string_of_nat n) \<Longrightarrow> \<exists>d::nat. d < 10 \<and> c = char_of (48 + d)"
proof (induction n rule: string_of_nat.induct)
  case (1 n)
  show ?case
  proof (cases "n < 10")
    case True
    with "1.prems" have "c = char_of (48 + n)" by (subst (asm) string_of_nat.simps) simp
    with True show ?thesis by blast
  next
    case False
    with "1.prems" have "c \<in> set (string_of_nat (n div 10)) \<or> c = char_of (48 + n mod 10)"
      by (subst (asm) string_of_nat.simps) auto
    then show ?thesis
    proof
      assume "c \<in> set (string_of_nat (n div 10))"
      with False "1.IH" show ?thesis by blast
    next
      assume "c = char_of (48 + n mod 10)"
      then show ?thesis by (intro exI[of _ "n mod 10"]) simp
    qed
  qed
qed

lemma string_of_nat_nonempty: "string_of_nat n \<noteq> []"
  by (subst string_of_nat.simps) simp

lemma digit_prefix_append:
  "(\<forall>c\<in>set xs. digit_val r c \<noteq> None) \<Longrightarrow> digit_prefix r (xs @ ys) = digit_prefix r xs @ digit_prefix r ys"
  by (induction xs) auto

lemma digits_value_snoc: "digits_value r (ds @ [d]) = digits_value r ds * r + d"
  by (simp add: digits_value_def)

lemma value_string_of_nat: "digits_value 10 (digit_prefix 10 (string_of_nat n)) = n"
proof (induction n rule: string_of_nat.induct)
  case (1 n)
  show ?case
  proof (cases "n < 10")
    case True
    then show ?thesis
      by (subst string_of_nat.simps) (simp add: digit_val_digit digits_value_def del: digit_val.simps)
  next
    case False
    have all: "\<forall>c\<in>set (string_of_nat (n div 10)). digit_val 10 c \<noteq> None"
      using string_of_nat_chars digit_val_digit by (metis option.distinct(1))
    have "digit_prefix 10 (string_of_nat n) =
          digit_prefix 10 (string_of_nat (n div 10)) @ [n mod 10]"
      using False all by (subst string_of_nat.simps) (simp add: digit_prefix_append digit_val_digit del: digit_val.simps)
    with False "1.IH" show ?thesis by (simp add: digits_value_snoc)
  qed
qed

lemma prefix_string_of_nat_nonempty: "digit_prefix 10 (string_of_nat n) \<noteq> []"
proof -
  obtain c cs where "string_of_nat n = c # cs"
    using string_of_nat_nonempty by (cases "string_of_nat n") auto
  moreover then obtain d :: nat where "d < 10" "c = char_of (48 + d)"
    using string_of_nat_chars by (metis list.set_intros(1))
  ultimately show ?thesis by (simp add: digit_val_digit del: digit_val.simps)
qed

lemma digit_char_not_special:
  "(d::nat) < 10 \<Longrightarrow> char_of (48 + d) \<noteq> CHR ''x'' \<and> char_of (48 + d) \<noteq> CHR ''X'' \<and>
     char_of (48 + d) \<noteq> CHR ''-'' \<and> char_of (48 + d) \<noteq> CHR ''+'' \<and> \<not> js_space (char_of (48 + d))"
proof -
  assume d: "d < 10"
  have "(of_char (char_of (48 + d)) :: nat) = 48 + d" using d by (rule of_char_digit)
  then show ?thesis using d
    by (auto simp: js_space_def dest: arg_cong[where f = "of_char :: char \<Rightarrow> nat"])
qed

lemma parse_unsigned_string_of_nat: "parse_unsigned (string_of_nat n) = Some n"
proof -
  have body: "(case string_of_nat n of c0 # c1 # rest \<Rightarrow>
             if c0 = CHR ''0'' \<and> (c1 = CHR ''x'' \<or> c1 = CHR ''X'') then (16::nat, rest) else (10, string_of_nat n)
         | _ \<Rightarrow> (10, string_of_nat n)) = (10, string_of_nat n)"
  proof (cases "string_of_nat n" rule: list.exhaust)
    case (Cons c0 cs)
    then show ?thesis
    proof (cases cs)
      case (Cons c1 rest)
      then have "c1 \<in> set (string_of_nat n)" using \<open>string_of_nat n = c0 # cs\<close> by simp
      then obtain d :: nat where "d < 10" "c1 = char_of (48 + d)" using string_of_nat_chars by blast
      then show ?thesis using \<open>string_of_nat n = c0 # cs\<close> Cons digit_char_not_special by auto
    qed simp
  qed simp
  show ?thesis
    by (simp only: parse_unsigned_def body Let_def prod.case)
       (simp add: value_string_of_nat prefix_string_of_nat_nonempty)
qed

lemma string_of_nat_head:
  "\<exists>c cs. string_of_nat n = c # cs \<and> c \<noteq> CHR ''-'' \<and> c \<noteq> CHR ''+'' \<and> \<not> js_space c"
proof -
  obtain c cs where eq: "string_of_nat n = c # cs"
    using string_of_nat_nonempty by (cases "string_of_nat n") auto
  then obtain d :: nat where "d < 10" "c = char_of (48 + d)"
    using string_of_nat_chars by (metis list.set_intros(1))
  with eq digit_char_not_special show ?thesis by blast
qed

text \<open>
  \<open>parseInt\<close> reads back every integer its decimal printing writes.
\<close>

lemma parseInt_string_of_int: "js_parseInt (string_of_int i) = Some i"
proof (cases "i < 0")
  case True
  have "\<not> js_space CHR ''-''" by (simp add: js_space_def)
  with True show ?thesis
    by (simp add: js_parseInt_def string_of_int_def parse_unsigned_string_of_nat)
next
  case False
  obtain c cs where h: "string_of_nat (nat i) = c # cs" "c \<noteq> CHR ''-''" "c \<noteq> CHR ''+''" "\<not> js_space c"
    using string_of_nat_head by blast
  then have "js_parseInt (string_of_nat (nat i)) = map_option int (parse_unsigned (string_of_nat (nat i)))"
    by (simp add: js_parseInt_def)
  with False show ?thesis
    by (simp add: string_of_int_def parse_unsigned_string_of_nat)
qed

end
