(* ===== verification/Api_Client.thy ===== *)
theory Api_Client
  imports Json
begin

text \<open>
  The API client of \<open>src/src/utils/api.ts\<close>. Every method of the \<open>api\<close>
  object is a constructor of \<open>api_op\<close>; \<open>op_request\<close> is the \<open>fetch\<close>
  call the method makes and \<open>op_check\<close> what it does with the response.
  The remote service is a parameter \<open>srv\<close> of type \<open>server\<close>: the
  response it gives to a request, or \<open>None\<close> when \<open>fetch\<close> rejects
  (network failure). \<open>JSON.stringify\<close> is not modelled: a request body is
  the JSON value the method stringifies.
\<close>

section \<open>Requests\<close>

datatype http_method = GET | POST | PUT | DELETE

record http_request =
  req_method :: http_method
  req_url :: string
  req_headers :: "(string \<times> string) list"
  req_body :: "json option"

definition API_BASE_URL :: string where
  "API_BASE_URL = ''https://book143.onrender.com/api''"

text \<open>\<open>getHeaders(token)\<close>: the bearer header only for a truthy token.\<close>

definition get_headers :: "string option \<Rightarrow> (string \<times> string) list" where
  "get_headers token =
     [(''Content-Type'', ''application/json'')] @
     (case token of
        Some t \<Rightarrow> if t \<noteq> [] then [(''Authorization'', ''Bearer '' @ t)] else []
      | None \<Rightarrow> [])"

text \<open>The methods of \<open>api\<close>, with the arguments they take.\<close>

datatype api_op =
    Login string string                  \<comment> \<open>\<open>login(email, password)\<close>\<close>
  | Signup string string string          \<comment> \<open>\<open>signup(username, email, password)\<close>\<close>
  | GetBooks int int                     \<comment> \<open>\<open>getBooks(page, limit)\<close>\<close>
  | GetBook string                       \<comment> \<open>\<open>getBook(id)\<close>\<close>
  | CreateBook string json               \<comment> \<open>\<open>createBook(token, bookData)\<close>\<close>
  | UpdateBook string string json        \<comment> \<open>\<open>updateBook(token, id, bookData)\<close>\<close>
  | DeleteBook string string             \<comment> \<open>\<open>deleteBook(token, id)\<close>\<close>
  | CreateReview string json             \<comment> \<open>\<open>createReview(token, reviewData)\<close>\<close>
  | UpdateReview string string json      \<comment> \<open>\<open>updateReview(token, id, reviewData)\<close>\<close>
  | DeleteReview string string           \<comment> \<open>\<open>deleteReview(token, id)\<close>\<close>
  | GetProfile string                    \<comment> \<open>\<open>getProfile(token)\<close>\<close>

text \<open>
  \<open>fetch(url)\<close> without options is a \<open>GET\<close> with no headers and no body;
  \<open>getProfile\<close> passes headers and no method, so it is a \<open>GET\<close> too.
\<close>

fun op_request :: "api_op \<Rightarrow> http_request" where
  "op_request (Login email password) =
     \<lparr>req_method = POST, req_url = API_BASE_URL @ ''/auth/login'', req_headers = get_headers None,
      req_body = Some (JObj [(''email'', JStr email), (''password'', JStr password)])\<rparr>"
| "op_request (Signup username email password) =
     \<lparr>req_method = POST, req_url = API_BASE_URL @ ''/auth/signup'', req_headers = get_headers None,
      req_body = Some (JObj [(''username'', JStr username), (''email'', JStr email),
                             (''password'', JStr password)])\<rparr>"
| "op_request (GetBooks page limit) =
     \<lparr>req_method = GET,
      req_url = API_BASE_URL @ ''/books?page='' @ string_of_int page @ ''&limit='' @ string_of_int limit,
      req_headers = [], req_body = None\<rparr>"
| "op_request (GetBook i) =
     \<lparr>req_method = GET, req_url = API_BASE_URL @ ''/books/'' @ i, req_headers = [], req_body = None\<rparr>"
| "op_request (CreateBook token bookData) =
     \<lparr>req_method = POST, req_url = API_BASE_URL @ ''/books'', req_headers = get_headers (Some token),
      req_body = Some bookData\<rparr>"
| "op_request (UpdateBook token i bookData) =
     \<lparr>req_method = PUT, req_url = API_BASE_URL @ ''/books/'' @ i, req_headers = get_headers (Some token),
      req_body = Some bookData\<rparr>"
| "op_request (DeleteBook token i) =
     \<lparr>req_method = DELETE, req_url = API_BASE_URL @ ''/books/'' @ i,
      req_headers = get_headers (Some token), req_body = None\<rparr>"
| "op_request (CreateReview token reviewData) =
     \<lparr>req_method = POST, req_url = API_BASE_URL @ ''/reviews'', req_headers = get_headers (Some token),
      req_body = Some reviewData\<rparr>"
| "op_request (UpdateReview token i reviewData) =
     \<lparr>req_method = PUT, req_url = API_BASE_URL @ ''/reviews/'' @ i,
      req_headers = get_headers (Some token), req_body = Some reviewData\<rparr>"
| "op_request (DeleteReview token i) =
     \<lparr>req_method = DELETE, req_url = API_BASE_URL @ ''/reviews/'' @ i,
      req_headers = get_headers (Some token), req_body = None\<rparr>"
| "op_request (GetProfile token) =
     \<lparr>req_method = GET, req_url = API_BASE_URL @ ''/profile'', req_headers = get_headers (Some token),
      req_body = None\<rparr>"

section \<open>Responses\<close>

text \<open>
  A response is its status and its body as \<open>res.json()\<close> reads it:
  \<open>None\<close> when the body is not JSON, so that \<open>res.json()\<close> rejects with a
  \<open>SyntaxError\<close>.
\<close>

record http_response =
  status :: nat
  resp_body :: "json option"

definition res_ok :: "http_response \<Rightarrow> bool" where
  "res_ok r \<longleftrightarrow> 200 \<le> status r \<and> status r \<le> 299"

text \<open>
  What a method can throw: \<open>fetch\<close> rejecting, \<open>res.json()\<close> rejecting,
  the \<open>TypeError\<close> of reading \<open>error.error\<close> when the body is \<open>null\<close>,
  and the \<open>Error\<close> the method throws itself, with its message.
\<close>

datatype api_error = FetchFailed | BodyNotJson | ErrorBodyNull | ApiFailure string

definition read_json :: "http_response \<Rightarrow> api_error + json" where
  "read_json r = (case resp_body r of None \<Rightarrow> Inl BodyNotJson | Some v \<Rightarrow> Inr v)"

text \<open>
  \<open>if (!res.ok) { const error = await res.json();
   throw new Error(error.error || dflt); } return res.json();\<close>
\<close>

definition checked_body :: "string \<Rightarrow> http_response \<Rightarrow> api_error + json" where
  "checked_body dflt r =
     (if res_ok r then read_json r
      else (case resp_body r of
              None \<Rightarrow> Inl BodyNotJson
            | Some v \<Rightarrow>
                (case js_get v ''error'' of
                   Inl _ \<Rightarrow> Inl ErrorBodyNull
                 | Inr f \<Rightarrow> Inl (ApiFailure (js_to_string (js_or f (JStr dflt)))))))"

text \<open>\<open>if (!res.ok) throw new Error(msg); return res.json();\<close>\<close>

definition checked_plain :: "string \<Rightarrow> http_response \<Rightarrow> api_error + json" where
  "checked_plain msg r = (if res_ok r then read_json r else Inl (ApiFailure msg))"

fun op_check :: "api_op \<Rightarrow> http_response \<Rightarrow> api_error + json" where
  "op_check (Login _ _) = checked_body ''Login failed''"
| "op_check (Signup _ _ _) = checked_body ''Signup failed''"
| "op_check (GetBooks _ _) = checked_plain ''Failed to fetch books''"
| "op_check (GetBook _) = checked_plain ''Failed to fetch book''"
| "op_check (CreateBook _ _) = checked_body ''Failed to create book''"
| "op_check (UpdateBook _ _ _) = checked_body ''Failed to update book''"
| "op_check (DeleteBook _ _) = checked_body ''Failed to delete book''"
| "op_check (CreateReview _ _) = checked_body ''Failed to create review''"
| "op_check (UpdateReview _ _ _) = checked_body ''Failed to update review''"
| "op_check (DeleteReview _ _) = checked_body ''Failed to delete review''"
| "op_check (GetProfile _) = checked_plain ''Failed to fetch profile''"

type_synonym server = "http_request \<Rightarrow> http_response option"

text \<open>One call of a method: send the request, then check the response.\<close>

definition api_call :: "server \<Rightarrow> api_op \<Rightarrow> api_error + json" where
  "api_call srv op =
     (case srv (op_request op) of None \<Rightarrow> Inl FetchFailed | Some r \<Rightarrow> op_check op r)"

text \<open>
  The interface the views program against: what one call of a method
  returns. The API client implements it as \<open>api_call srv\<close>.
\<close>

type_synonym api = "api_op \<Rightarrow> api_error + json"

section \<open>Classifying the operations\<close>

text \<open>The token a method is given, and whether it reads the error body.\<close>

fun op_token :: "api_op \<Rightarrow> string option" where
  "op_token (CreateBook t _) = Some t"
| "op_token (UpdateBook t _ _) = Some t"
| "op_token (DeleteBook t _) = Some t"
| "op_token (CreateReview t _) = Some t"
| "op_token (UpdateReview t _ _) = Some t"
| "op_token (DeleteReview t _) = Some t"
| "op_token (GetProfile t) = Some t"
| "op_token _ = None"

fun reads_error_body :: "api_op \<Rightarrow> bool" where
  "reads_error_body (GetBooks _ _) = False"
| "reads_error_body (GetBook _) = False"
| "reads_error_body (GetProfile _) = False"
| "reads_error_body _ = True"

fun default_message :: "api_op \<Rightarrow> string" where
  "default_message (Login _ _) = ''Login failed''"
| "default_message (Signup _ _ _) = ''Signup failed''"
| "default_message (GetBooks _ _) = ''Failed to fetch books''"
| "default_message (GetBook _) = ''Failed to fetch book''"
| "default_message (CreateBook _ _) = ''Failed to create book''"
| "default_message (UpdateBook _ _ _) = ''Failed to update book''"
| "default_message (DeleteBook _ _) = ''Failed to delete book''"
| "default_message (CreateReview _ _) = ''Failed to create review''"
| "default_message (UpdateReview _ _ _) = ''Failed to update review''"
| "default_message (DeleteReview _ _) = ''Failed to delete review''"
| "default_message (GetProfile _) = ''Failed to fetch profile''"

text \<open>A header lookup as the server performs it: the first header of the name.\<close>

definition header :: "string \<Rightarrow> (string \<times> string) list \<Rightarrow> string option" where
  "header n hs = map_of hs n"

section \<open>Lemmas\<close>

lemma op_check_cases:
  "op_check op =
     (if reads_error_body op then checked_body (default_message op) else checked_plain (default_message op))"
  by (cases op) simp_all

lemma header_get_headers [simp]:
  "header ''Authorization'' (get_headers token) =
     (case token of Some t \<Rightarrow> if t \<noteq> [] then Some (''Bearer '' @ t) else None | None \<Rightarrow> None)"
  by (simp add: header_def get_headers_def split: option.split)

lemma header_Nil [simp]: "header n [] = None"
  by (simp add: header_def)

lemma api_call_network [simp]:
  "srv (op_request op) = None \<Longrightarrow> api_call srv op = Inl FetchFailed"
  by (simp add: api_call_def)

lemma api_call_response [simp]:
  "srv (op_request op) = Some r \<Longrightarrow> api_call srv op = op_check op r"
  by (simp add: api_call_def)

section \<open>Properties of the API client\<close>

text \<open>
  C5: the bearer token. A method given a token sends the header
  \<open>Authorization: Bearer <token>\<close> with the token verbatim, except for the
  empty token, which \<open>getHeaders\<close> drops as falsy; the methods given no
  token send no authorization header.
\<close>

theorem request_authorization:
  "header ''Authorization'' (req_headers (op_request op)) =
     (case op_token op of Some t \<Rightarrow> if t \<noteq> [] then Some (''Bearer '' @ t) else None | None \<Rightarrow> None)"
  by (cases op) simp_all

text \<open>
  C6: error normalisation. When a method that reads the error body gets a
  non-success status and a body whose \<open>error\<close> field is a non-empty string,
  it fails with exactly that message.
\<close>

theorem api_error_message:
  assumes "reads_error_body op" and "srv (op_request op) = Some r" and "\<not> res_ok r"
    and "resp_body r = Some (JObj kvs)" and "map_of (rev kvs) ''error'' = Some (JStr m)" and "m \<noteq> []"
  shows "api_call srv op = Inl (ApiFailure m)"
  using assms by (simp add: op_check_cases checked_body_def)

theorem api_error_message_witness:
  "api_call (\<lambda>_. Some \<lparr>status = 403, resp_body = Some (JObj [(''error'', JStr ''Not authorized'')])\<rparr>)
     (DeleteReview ''tok'' ''r1'') = Inl (ApiFailure ''Not authorized'')"
proof -
  let ?r = "\<lparr>status = 403, resp_body = Some (JObj [(''error'', JStr ''Not authorized'')])\<rparr>"
  show ?thesis
    using api_error_message [of "DeleteReview ''tok'' ''r1''" "\<lambda>_. Some ?r" ?r
        "[(''error'', JStr ''Not authorized'')]" "''Not authorized''"]
    by (simp add: res_ok_def)
qed

text \<open>
  C7: an error body that is not JSON does not give the method's generic
  message: \<open>res.json()\<close> rejects first and its \<open>SyntaxError\<close> is what
  the caller sees (the specification promises the generic fallback here).
\<close>

theorem api_unparseable_error_body:
  assumes "reads_error_body op" and "srv (op_request op) = Some r" and "\<not> res_ok r"
    and "resp_body r = None"
  shows "api_call srv op = Inl BodyNotJson \<and> api_call srv op \<noteq> Inl (ApiFailure (default_message op))"
  using assms by (simp add: op_check_cases checked_body_def)

theorem api_unparseable_error_body_witness:
  "api_call (\<lambda>_. Some \<lparr>status = 502, resp_body = None\<rparr>) (DeleteBook ''tok'' ''b1'') = Inl BodyNotJson \<and>
   api_call (\<lambda>_. Some \<lparr>status = 502, resp_body = None\<rparr>) (DeleteBook ''tok'' ''b1'') \<noteq>
     Inl (ApiFailure (default_message (DeleteBook ''tok'' ''b1'')))"
  using api_unparseable_error_body [of "DeleteBook ''tok'' ''b1''"
      "\<lambda>_. Some \<lparr>status = 502, resp_body = None\<rparr>" "\<lparr>status = 502, resp_body = None\<rparr>"]
  by (simp add: res_ok_def)

text \<open>
  C8: \<open>getBooks\<close>, \<open>getBook\<close> and \<open>getProfile\<close> do not read the error
  body: every non-success status, a 404 of \<open>getBook\<close> included, gives their
  fixed message.
\<close>

theorem api_plain_error:
  assumes "\<not> reads_error_body op" and "srv (op_request op) = Some r" and "\<not> res_ok r"
  shows "api_call srv op = Inl (ApiFailure (default_message op))"
  using assms by (simp add: op_check_cases checked_plain_def)

theorem api_plain_error_witness:
  "api_call (\<lambda>_. Some \<lparr>status = 404, resp_body = Some (JObj [(''error'', JStr ''Book not found'')])\<rparr>)
     (GetBook ''abc'') = Inl (ApiFailure ''Failed to fetch book'')"
  using api_plain_error [of "GetBook ''abc''"
      "\<lambda>_. Some \<lparr>status = 404, resp_body = Some (JObj [(''error'', JStr ''Book not found'')])\<rparr>"]
  by (simp add: res_ok_def)

text \<open>
  C9: on a success status every method returns the parsed body unchanged
  (and fails with the \<open>SyntaxError\<close> when the body is not JSON).
\<close>

theorem api_success:
  assumes "srv (op_request op) = Some r" and "res_ok r"
  shows "api_call srv op = read_json r"
  using assms by (simp add: op_check_cases checked_plain_def checked_body_def)

theorem api_success_witness:
  "api_call (\<lambda>_. Some \<lparr>status = 200, resp_body = Some (JObj [(''books'', JArr [])])\<rparr>) (GetBooks 2 12) =
     Inr (JObj [(''books'', JArr [])])"
  using api_success [of "\<lambda>_. Some \<lparr>status = 200, resp_body = Some (JObj [(''books'', JArr [])])\<rparr>"
      "GetBooks 2 12"]
  by (simp add: res_ok_def read_json_def)

text \<open>
  C10: the generic fallback. When the error body is JSON but its \<open>error\<close>
  field is missing or falsy (\<open>null\<close>, \<open>false\<close>, \<open>0\<close>, the empty
  string), a method that reads the error body fails with its own default
  message.
\<close>

theorem api_error_fallback:
  assumes "reads_error_body op" and "srv (op_request op) = Some r" and "\<not> res_ok r"
    and "resp_body r = Some v" and "js_get v ''error'' = Inr f"
    and "\<not> (\<exists>e. f = Some e \<and> js_truthy e)"
  shows "api_call srv op = Inl (ApiFailure (default_message op))"
  using assms by (cases f) (auto simp add: op_check_cases checked_body_def)

theorem api_error_fallback_witness:
  "api_call (\<lambda>_. Some \<lparr>status = 401, resp_body = Some (JObj [(''error'', JStr [])])\<rparr>) (Login ''a'' ''b'') =
     Inl (ApiFailure ''Login failed'')"
  using api_error_fallback [of "Login ''a'' ''b''"
      "\<lambda>_. Some \<lparr>status = 401, resp_body = Some (JObj [(''error'', JStr [])])\<rparr>"]
  by (simp add: res_ok_def)

text \<open>
  C11: an error body that is the JSON value \<open>null\<close> does not give the
  method's generic message either: reading \<open>error.error\<close> throws a
  \<open>TypeError\<close> first, and that is what the caller sees.
\<close>

theorem api_null_error_body:
  assumes "reads_error_body op" and "srv (op_request op) = Some r" and "\<not> res_ok r"
    and "resp_body r = Some JNull"
  shows "api_call srv op = Inl ErrorBodyNull \<and> api_call srv op \<noteq> Inl (ApiFailure (default_message op))"
  using assms by (simp add: op_check_cases checked_body_def)

theorem api_null_error_body_witness:
  "api_call (\<lambda>_. Some \<lparr>status = 500, resp_body = Some JNull\<rparr>) (CreateReview ''tok'' JNull) = Inl ErrorBodyNull"
  using api_null_error_body [of "CreateReview ''tok'' JNull" "\<lambda>_. Some \<lparr>status = 500, resp_body = Some JNull\<rparr>"]
  by (simp add: res_ok_def)

end
