(* ===== verification/Session.thy ===== *)
theory Session
  imports Api_Client
begin

text \<open>
  The session store, \<open>AuthProvider\<close>/\<open>useAuth\<close> of
  \<open>src/context/AuthContext\<close>. That file is not part of the sources, so this
  theory follows the specification (section 4.1): the store holds the current
  user and bearer token, persists them as one record in durable storage, and
  exposes \<open>login\<close>, \<open>signup\<close>, \<open>logout\<close> and the \<open>restore\<close> done when
  the process starts. \<open>login\<close> and \<open>signup\<close> call the API client.
\<close>

record user =
  user_id :: string
  user_name :: string
  user_email :: string

record session =
  user :: "user option"
  token :: "string option"

text \<open>The store: the session in memory and the record in durable storage.\<close>

record auth_state =
  current :: session
  stored :: "session option"

definition empty_session :: session where
  "empty_session = \<lparr>user = None, token = None\<rparr>"

definition auth_init :: auth_state where
  "auth_init = \<lparr>current = empty_session, stored = None\<rparr>"

definition is_authenticated :: "session \<Rightarrow> bool" where
  "is_authenticated s \<longleftrightarrow> token s \<noteq> None"

text \<open>Reading \<open>{user: {id, username, email}, token}\<close> out of the response.\<close>

definition decode_user :: "json \<Rightarrow> user option" where
  "decode_user v =
     (case (json_str (obj_field v ''id''), json_str (obj_field v ''username''),
            json_str (obj_field v ''email'')) of
        (Some i, Some n, Some e) \<Rightarrow> Some \<lparr>user_id = i, user_name = n, user_email = e\<rparr>
      | _ \<Rightarrow> None)"

definition decode_auth :: "json \<Rightarrow> (user \<times> string) option" where
  "decode_auth v =
     (case (obj_field v ''user'', json_str (obj_field v ''token'')) of
        (Some u, Some t) \<Rightarrow> map_option (\<lambda>usr. (usr, t)) (decode_user u)
      | _ \<Rightarrow> None)"

text \<open>
  A failed call leaves the store untouched and surfaces the error; a
  response without the two fields is an error of its own (the specification
  does not say what the store does then).
\<close>

datatype auth_error = AuthApi api_error | AuthMalformed

definition adopt :: "user \<Rightarrow> string \<Rightarrow> auth_state \<Rightarrow> auth_state" where
  "adopt u t st =
     st\<lparr>current := \<lparr>user = Some u, token = Some t\<rparr>, stored := Some \<lparr>user = Some u, token = Some t\<rparr>\<rparr>"

definition authenticate :: "server \<Rightarrow> api_op \<Rightarrow> auth_state \<Rightarrow> auth_state \<times> (auth_error + unit)" where
  "authenticate srv op st =
     (case api_call srv op of
        Inl e \<Rightarrow> (st, Inl (AuthApi e))
      | Inr d \<Rightarrow>
          (case decode_auth d of
             None \<Rightarrow> (st, Inl AuthMalformed)
           | Some (u, t) \<Rightarrow> (adopt u t st, Inr ())))"

definition auth_login :: "server \<Rightarrow> string \<Rightarrow> string \<Rightarrow> auth_state \<Rightarrow> auth_state \<times> (auth_error + unit)" where
  "auth_login srv email password st = authenticate srv (Login email password) st"

definition auth_signup ::
  "server \<Rightarrow> string \<Rightarrow> string \<Rightarrow> string \<Rightarrow> auth_state \<Rightarrow> auth_state \<times> (auth_error + unit)" where
  "auth_signup srv username email password st = authenticate srv (Signup username email password) st"

text \<open>\<open>logout()\<close>: clears memory and storage, no network call.\<close>

definition auth_logout :: "auth_state \<Rightarrow> auth_state" where
  "auth_logout st = \<lparr>current = empty_session, stored = None\<rparr>"

text \<open>\<open>restore()\<close>: the initial session of a fresh process, read from storage.\<close>

definition auth_restore :: "session option \<Rightarrow> session" where
  "auth_restore p = (case p of Some s \<Rightarrow> s | None \<Rightarrow> empty_session)"

definition restart :: "auth_state \<Rightarrow> auth_state" where
  "restart st = \<lparr>current = auth_restore (stored st), stored = stored st\<rparr>"

section \<open>The store as a state machine\<close>

text \<open>Each operation is one step; the server answering each call is arbitrary.\<close>

inductive auth_step :: "auth_state \<Rightarrow> auth_state \<Rightarrow> bool" where
  login: "auth_step st (fst (auth_login srv email password st))"
| signup: "auth_step st (fst (auth_signup srv username email password st))"
| logout: "auth_step st (auth_logout st)"
| restart: "auth_step st (restart st)"

inductive auth_reachable :: "auth_state \<Rightarrow> bool" where
  init: "auth_reachable auth_init"
| step: "auth_reachable st \<Longrightarrow> auth_step st st' \<Longrightarrow> auth_reachable st'"

text \<open>
  The invariant: no partly authenticated session, and storage holds exactly
  the authenticated session (nothing when logged out).
\<close>

definition wf_session :: "session \<Rightarrow> bool" where
  "wf_session s \<longleftrightarrow> (user s = None \<longleftrightarrow> token s = None)"

definition auth_inv :: "auth_state \<Rightarrow> bool" where
  "auth_inv st \<longleftrightarrow>
     wf_session (current st) \<and>
     stored st = (if is_authenticated (current st) then Some (current st) else None)"

section \<open>Lemmas\<close>

lemma authenticate_cases:
  "(\<exists>e. authenticate srv op st = (st, Inl e)) \<or> (\<exists>u t. authenticate srv op st = (adopt u t st, Inr ()))"
  by (auto simp: authenticate_def split: sum.split option.split)

lemma adopt_inv [intro]: "auth_inv (adopt u t st)"
  by (simp add: adopt_def auth_inv_def wf_session_def is_authenticated_def)

lemma authenticate_inv:
  "auth_inv st \<Longrightarrow> auth_inv (fst (authenticate srv op st))"
  by (auto simp: authenticate_def split: sum.split option.split)

lemma empty_session_simps [simp]:
  "user empty_session = None" "token empty_session = None"
  "is_authenticated empty_session = False" "wf_session empty_session"
  by (simp_all add: empty_session_def is_authenticated_def wf_session_def)

lemma auth_step_inv: "auth_step st st' \<Longrightarrow> auth_inv st \<Longrightarrow> auth_inv st'"
proof (induction rule: auth_step.induct)
  case (login st srv email password)
  then show ?case by (simp add: auth_login_def authenticate_inv)
next
  case (signup st srv username email password)
  then show ?case by (simp add: auth_signup_def authenticate_inv)
next
  case (logout st)
  then show ?case by (simp add: auth_logout_def auth_inv_def)
next
  case (restart st)
  then show ?case by (auto simp: restart_def auth_restore_def auth_inv_def split: option.split)
qed

lemma auth_reachable_inv: "auth_reachable st \<Longrightarrow> auth_inv st"
proof (induction rule: auth_reachable.induct)
  case init
  show ?case by (simp add: auth_init_def auth_inv_def)
next
  case (step st st')
  then show ?case using auth_step_inv by blast
qed

lemma auth_inv_restart: "auth_inv st \<Longrightarrow> restart st = st"
  by (cases st) (auto simp: restart_def auth_restore_def auth_inv_def wf_session_def
      is_authenticated_def split: if_splits)

lemma authenticate_success:
  "api_call srv op = Inr d \<Longrightarrow> decode_auth d = Some (u, t) \<Longrightarrow>
     authenticate srv op st = (adopt u t st, Inr ())"
  by (simp add: authenticate_def)

lemma authenticate_failure:
  "api_call srv op = Inl e \<Longrightarrow> authenticate srv op st = (st, Inl (AuthApi e))"
  by (simp add: authenticate_def)

lemma adopt_current [simp]:
  "current (adopt u t st) = \<lparr>user = Some u, token = Some t\<rparr>"
  "stored (adopt u t st) = Some \<lparr>user = Some u, token = Some t\<rparr>"
  by (simp_all add: adopt_def)

end
