(* ===== verification/Navbar.thy ===== *)
theory Navbar
  imports Routes Session
begin

text \<open>
  The navigation bar of \<open>src/src/components/Navbar.tsx\<close>: the buttons it
  renders for the current session, where each one navigates, and the user
  name it shows. The theme toggle changes only the colour scheme.
\<close>

datatype nav_button =
    BrandBtn | HomeBtn | AddBookBtn | ProfileBtn | ThemeBtn | LogoutBtn | LoginBtn | SignupBtn

text \<open>The buttons \<open>Navbar\<close> renders, in document order.\<close>

definition navbar_buttons :: "bool \<Rightarrow> nav_button list" where
  "navbar_buttons is_auth =
     [BrandBtn, HomeBtn] @ (if is_auth then [AddBookBtn, ProfileBtn] else []) @ [ThemeBtn] @
     (if is_auth then [LogoutBtn] else [LoginBtn, SignupBtn])"

text \<open>
  The path each button navigates to; the logout button calls \<open>logout()\<close>
  before \<open>navigate('/')\<close>, and the theme button does not navigate.
\<close>

fun button_target :: "nav_button \<Rightarrow> string option" where
  "button_target BrandBtn = Some ''/''"
| "button_target HomeBtn = Some ''/''"
| "button_target AddBookBtn = Some ''/add-book''"
| "button_target ProfileBtn = Some ''/profile''"
| "button_target ThemeBtn = None"
| "button_target LogoutBtn = Some ''/''"
| "button_target LoginBtn = Some ''/login''"
| "button_target SignupBtn = Some ''/signup''"

definition auth_after_click :: "bool \<Rightarrow> nav_button \<Rightarrow> bool" where
  "auth_after_click is_auth b = (if b = LogoutBtn then False else is_auth)"

text \<open>\<open>{user?.username}\<close>, shown when authenticated (\<open>undefined\<close> renders empty).\<close>

definition navbar_username :: "session \<Rightarrow> string option" where
  "navbar_username s =
     (if is_authenticated s then Some (case user s of Some u \<Rightarrow> user_name u | None \<Rightarrow> []) else None)"

section \<open>Properties\<close>

text \<open>
  C13: every button of the navigation bar leads to a view that renders:
  the protected targets are offered only to an authenticated user, and the
  logout button leads to \<open>/\<close>, which needs no session.
\<close>

theorem navbar_targets_render:
  "b \<in> set (navbar_buttons a) \<Longrightarrow> button_target b = Some p \<Longrightarrow>
     \<exists>v. app_routes (auth_after_click a b) p = Render v"
  by (cases b) (auto split: if_splits simp: navbar_buttons_def auth_after_click_def app_routes_def match_route_def
      path_segments_def seg_is_def lower_ascii_def protected_route_def)

theorem navbar_targets_render_witness:
  "\<exists>v. app_routes (auth_after_click True AddBookBtn) ''/add-book'' = Render v"
  by (rule navbar_targets_render) (simp_all add: navbar_buttons_def)

end
