(* ===== verification/Home.thy ===== *)
theory Home
  imports Api_Client Session
begin

text \<open>
  The book list of \<open>src/src/pages/Home.tsx\<close>: its state, \<open>loadBooks\<close>,
  the effect that reloads whenever \<open>currentPage\<close> changes, the pagination
  controls and what the page renders. The view talks to the API through
  the interface \<^typ>\<open>api\<close>, so its lemmas hold for any server.
  A successful response is read as \<open>{books, totalPages, currentPage}\<close>. A
  \<open>null\<close> body throws at \<open>data.books\<close> inside the \<open>try\<close> and is only
  logged. A body whose \<open>books\<close> is not an array leaves a value in the state
  on which the next render throws, recorded as \<open>crashed\<close>. A body whose
  page numbers are not numbers is outside the model and recorded as
  \<open>crashed\<close> too (the code would store \<open>undefined\<close> and request
  \<open>page=undefined\<close>); the lemmas about loads assume typed answers.
\<close>

record home_state =
  books :: "json list"
  loading :: bool
  currentPage :: int
  totalPages :: int
  crashed :: bool

definition home_init :: home_state where
  "home_init = \<lparr>books = [], loading = True, currentPage = 1, totalPages = 1, crashed = False\<rparr>"

definition decode_page :: "json \<Rightarrow> (json list \<times> int \<times> int) option" where
  "decode_page d =
     (case (obj_field d ''books'', json_int (obj_field d ''totalPages''), json_int (obj_field d ''currentPage'')) of
        (Some (JArr bs), Some tp, Some cp) \<Rightarrow> Some (bs, tp, cp)
      | _ \<Rightarrow> None)"

text \<open>\<open>loadBooks(page)\<close>, from \<open>setLoading(true)\<close> to the \<open>finally\<close>.\<close>

definition load_books :: "api \<Rightarrow> int \<Rightarrow> home_state \<Rightarrow> home_state" where
  "load_books call page st =
     (case call (GetBooks page 12) of
        Inl _ \<Rightarrow> st\<lparr>loading := False\<rparr>
      | Inr d \<Rightarrow>
          (if d = JNull then st\<lparr>loading := False\<rparr>
           else
             (case decode_page d of
                None \<Rightarrow> st\<lparr>loading := False, crashed := True\<rparr>
              | Some (bs, tp, cp) \<Rightarrow> st\<lparr>books := bs, totalPages := tp, currentPage := cp, loading := False\<rparr>)))"

text \<open>
  \<open>useEffect(() => loadBooks(currentPage), [currentPage])\<close>: the load runs
  again as long as it changes \<open>currentPage\<close>. The effect is bounded by
  fuel; \<open>None\<close> is "still reloading when the fuel ran out".
\<close>

fun home_effect :: "nat \<Rightarrow> api \<Rightarrow> home_state \<Rightarrow> home_state option" where
  "home_effect 0 call st = None"
| "home_effect (Suc n) call st =
     (let st' = load_books call (currentPage st) st in
      if currentPage st' = currentPage st then Some st' else home_effect n call st')"

text \<open>The pagination controls, shown when there are books and more than one page.\<close>

datatype home_click = PrevPage | NextPage | GoPage int

definition show_pagination :: "home_state \<Rightarrow> bool" where
  "show_pagination st \<longleftrightarrow> \<not> loading st \<and> \<not> crashed st \<and> books st \<noteq> [] \<and> 1 < totalPages st"

definition page_numbers :: "int \<Rightarrow> int list" where
  "page_numbers tp = [1..tp]"

text \<open>
  The page a click asks for: \<open>None\<close> for a disabled button or one that is
  not rendered; the updaters \<open>Math.max(1, p - 1)\<close> and
  \<open>Math.min(totalPages, p + 1)\<close>.
\<close>

fun click_target :: "home_state \<Rightarrow> home_click \<Rightarrow> int option" where
  "click_target st PrevPage =
     (if show_pagination st \<and> currentPage st \<noteq> 1 then Some (max 1 (currentPage st - 1)) else None)"
| "click_target st NextPage =
     (if show_pagination st \<and> currentPage st \<noteq> totalPages st
      then Some (min (totalPages st) (currentPage st + 1)) else None)"
| "click_target st (GoPage q) =
     (if show_pagination st \<and> q \<in> set (page_numbers (totalPages st)) then Some q else None)"

text \<open>
  A click: \<open>setCurrentPage(q)\<close>; React skips the update when \<open>q\<close> is the
  current page, otherwise the effect loads page \<open>q\<close>.
\<close>

definition home_click :: "nat \<Rightarrow> api \<Rightarrow> home_click \<Rightarrow> home_state \<Rightarrow> home_state option" where
  "home_click fuel call c st =
     (case click_target st c of
        None \<Rightarrow> Some st
      | Some q \<Rightarrow> if q = currentPage st then Some st else home_effect fuel call (st\<lparr>currentPage := q\<rparr>))"

text \<open>What the page shows: the spinner, the empty notice, or the grid with the
  page buttons and the highlighted page.\<close>

datatype home_screen =
    HomeSpinner | HomeCrashed | HomeEmpty | HomeGrid "json list" "(int list \<times> int) option"

definition home_render :: "home_state \<Rightarrow> home_screen" where
  "home_render st =
     (if crashed st then HomeCrashed
      else if loading st then HomeSpinner
      else if books st = [] then HomeEmpty
      else HomeGrid (books st)
             (if 1 < totalPages st then Some (page_numbers (totalPages st), currentPage st) else None))"

text \<open>The page number a load of page \<open>q\<close> writes into \<open>currentPage\<close>, if any.\<close>

definition page_answer :: "api \<Rightarrow> int \<Rightarrow> int option" where
  "page_answer call q =
     (case call (GetBooks q 12) of Inr d \<Rightarrow> map_option (\<lambda>(bs, tp, cp). cp) (decode_page d) | Inl _ \<Rightarrow> None)"

section \<open>Lemmas\<close>

lemma load_books_error [simp]:
  "call (GetBooks page 12) = Inl e \<Longrightarrow> load_books call page st = st\<lparr>loading := False\<rparr>"
  by (simp add: load_books_def)

lemma decode_page_null [simp]: "decode_page JNull = None"
  by (simp add: decode_page_def obj_field_def)

lemma decode_page_not_null: "decode_page d = Some p \<Longrightarrow> d \<noteq> JNull"
  by auto

lemma load_books_ok:
  "call (GetBooks page 12) = Inr d \<Longrightarrow> decode_page d = Some (bs, tp, cp) \<Longrightarrow>
     load_books call page st = st\<lparr>books := bs, totalPages := tp, currentPage := cp, loading := False\<rparr>"
  by (simp add: load_books_def decode_page_not_null)

lemma load_books_cases:
  "load_books call page st = st\<lparr>loading := False\<rparr> \<or>
   load_books call page st = st\<lparr>loading := False, crashed := True\<rparr> \<or>
   (\<exists>bs tp cp d. call (GetBooks page 12) = Inr d \<and> decode_page d = Some (bs, tp, cp) \<and>
      load_books call page st = st\<lparr>books := bs, totalPages := tp, currentPage := cp, loading := False\<rparr>)"
  by (auto simp: load_books_def split: sum.split option.split)

lemma page_numbers_mem [simp]: "q \<in> set (page_numbers tp) \<longleftrightarrow> 1 \<le> q \<and> q \<le> tp"
  by (simp add: page_numbers_def)

lemma load_books_page:
  "currentPage (load_books call q st) = (case page_answer call q of Some cp \<Rightarrow> cp | None \<Rightarrow> currentPage st)"
  by (auto simp: load_books_def page_answer_def split: sum.split option.split)

section \<open>Properties of the book list\<close>

text \<open>
  C15: pagination stays in range: from a page within \<open>1..totalPages\<close>,
  every enabled control (previous, next, a page number) asks for a page
  within \<open>1..totalPages\<close>.
\<close>

theorem click_target_in_range:
  assumes "click_target st c = Some q" and "1 \<le> currentPage st" and "currentPage st \<le> totalPages st"
  shows "1 \<le> q \<and> q \<le> totalPages st"
  using assms by (cases c) (auto simp: show_pagination_def split: if_splits)

theorem click_target_in_range_witness:
  "1 \<le> (4::int) \<and> (4::int) \<le> totalPages (\<lparr>books = [JNull], loading = False, currentPage = 3, totalPages = 5, crashed = False\<rparr>) \<and>
   click_target \<lparr>books = [JNull], loading = False, currentPage = 3, totalPages = 5, crashed = False\<rparr> NextPage = Some 4"
proof -
  have t: "click_target \<lparr>books = [JNull], loading = False, currentPage = 3, totalPages = 5, crashed = False\<rparr> NextPage = Some 4"
    by (simp add: show_pagination_def)
  show ?thesis using click_target_in_range [OF t] t by simp
qed

text \<open>
  C16: the specification's scenario: on a list showing page 1 of 5, choosing
  page 2 loads \<open>getBooks(2, 12)\<close>; when the server answers with
  \<open>currentPage: 2, totalPages: 5\<close> the grid shows the page-2 books and the
  page buttons 1 to 5 with 2 highlighted.
\<close>

theorem home_page_scenario:
  assumes "show_pagination st" and "totalPages st = 5" and "currentPage st = 1"
    and "call (GetBooks 2 12) = Inr d" and "decode_page d = Some (bs, 5, 2)" and "bs \<noteq> []"
  shows "\<exists>st'. home_click (Suc n) call (GoPage 2) st = Some st' \<and>
           home_render st' = HomeGrid bs (Some ([1, 2, 3, 4, 5], 2))"
proof -
  have t: "click_target st (GoPage 2) = Some 2" using assms(1,2) by simp
  have "load_books call 2 (st\<lparr>currentPage := 2\<rparr>) = st\<lparr>currentPage := 2, books := bs, totalPages := 5, loading := False\<rparr>"
    using assms(4,5) by (simp add: load_books_ok)
  then have "home_click (Suc n) call (GoPage 2) st = Some (st\<lparr>currentPage := 2, books := bs, totalPages := 5, loading := False\<rparr>)"
    using t assms(3) by (simp add: home_click_def)
  moreover have "\<not> crashed st" using assms(1) by (simp add: show_pagination_def)
  ultimately show ?thesis using assms(6) by (simp add: home_render_def page_numbers_def upto.simps)
qed
theorem home_page_scenario_witness:
  "\<exists>st'. home_click 1 (\<lambda>_. Inr (JObj [(''books'', JArr [JStr ''b'']), (''totalPages'', JNum 5), (''currentPage'', JNum 2)]))
      (GoPage 2) \<lparr>books = [JNull], loading = False, currentPage = 1, totalPages = 5, crashed = False\<rparr> = Some st' \<and>
    home_render st' = HomeGrid [JStr ''b''] (Some ([1, 2, 3, 4, 5], 2))"
  using home_page_scenario [of "\<lparr>books = [JNull], loading = False, currentPage = 1, totalPages = 5, crashed = False\<rparr>"
      "\<lambda>_. Inr (JObj [(''books'', JArr [JStr ''b'']), (''totalPages'', JNum 5), (''currentPage'', JNum 2)])"
      "JObj [(''books'', JArr [JStr ''b'']), (''totalPages'', JNum 5), (''currentPage'', JNum 2)]" "[JStr ''b'']" 0]
  by (simp add: show_pagination_def decode_page_def obj_field_def json_int_def)

text \<open>
  C17: the reload effect settles: when the server never moves a page it
  has already named (it echoes the page asked for, or corrects it once to
  a page it then echoes), mounting or a click issues at most two loads.
\<close>

theorem home_effect_settles:
  assumes idem: "\<forall>q cp cp'. page_answer call q = Some cp \<longrightarrow> page_answer call cp = Some cp' \<longrightarrow> cp' = cp"
  shows "\<exists>st'. home_effect 2 call st = Some st'"
proof -
  let ?st1 = "load_books call (currentPage st) st"
  show ?thesis
  proof (cases "currentPage ?st1 = currentPage st")
    case True
    then show ?thesis by (simp add: numeral_2_eq_2)
  next
    case False
    then obtain cp where cp: "page_answer call (currentPage st) = Some cp" "currentPage ?st1 = cp"
      by (auto simp: load_books_page split: option.splits)
    have "currentPage (load_books call cp ?st1) = cp"
      using idem cp by (auto simp: load_books_page split: option.split)
    with False cp show ?thesis by (simp add: numeral_2_eq_2 Let_def)
  qed
qed

theorem home_effect_settles_witness:
  "\<exists>st'. home_effect 2 (\<lambda>op. case op of GetBooks q _ \<Rightarrow>
       Inr (JObj [(''books'', JArr []), (''totalPages'', JNum 1), (''currentPage'', JNum q)]) | _ \<Rightarrow> Inl FetchFailed)
     home_init = Some st'"
  by (rule home_effect_settles)
     (simp add: page_answer_def decode_page_def obj_field_def json_int_def)

text \<open>
  C18: the reload effect trusts the page number in the response: a server
  that answers every page \<open>q\<close> with \<open>currentPage: q + 1\<close> makes the list
  reload without end, whatever bound is put on the number of loads.
\<close>

theorem home_effect_runaway:
  "(\<forall>q. page_answer call q = Some (q + 1)) \<Longrightarrow> home_effect n call st = None"
proof (induction n arbitrary: st)
  case 0
  then show ?case by simp
next
  case (Suc n)
  then have "currentPage (load_books call (currentPage st) st) = currentPage st + 1"
    by (simp add: load_books_page)
  with Suc show ?case by (simp add: Let_def)
qed

theorem home_effect_runaway_witness:
  "home_effect 10 (\<lambda>op. case op of GetBooks q _ \<Rightarrow>
       Inr (JObj [(''books'', JArr [JNull]), (''totalPages'', JNum 1), (''currentPage'', JNum (q + 1))])
     | _ \<Rightarrow> Inl FetchFailed) home_init = None"
  by (rule home_effect_runaway)
     (simp add: page_answer_def decode_page_def obj_field_def json_int_def)

text \<open>
  C19: a failed load keeps what the list showed: books and page numbers are
  unchanged, the spinner is cleared and no further request is made.
\<close>

theorem home_load_error_keeps:
  "call (GetBooks (currentPage st) 12) = Inl e \<Longrightarrow> home_effect (Suc n) call st = Some (st\<lparr>loading := False\<rparr>)"
  by simp

theorem home_load_error_keeps_witness:
  "home_effect 1 (\<lambda>_. Inl FetchFailed) home_init = Some (home_init\<lparr>loading := False\<rparr>)"
  using home_load_error_keeps [of "\<lambda>_. Inl FetchFailed" home_init FetchFailed 0] by simp

end
