(* ===== verification/Ui.thy ===== *)
theory Ui
  imports Api_Client Session
begin

text \<open>
  What a handler of a view does besides changing the view's state, in the
  order it happens: the API requests it sends, the browser dialogs it opens
  (\<open>alert\<close>, \<open>confirm\<close>), the navigations it starts, the scroll and the
  console messages (an API error, or another exception caught by the
  handler's \<open>try\<close>). Handlers of the views return their new state together
  with this list.
\<close>

datatype effect =
    Request api_op
  | ShowAlert api_error
  | AskConfirm string
  | GoTo string
  | GoBack
  | ScrollToTop
  | LogError api_error
  | LogException

text \<open>The requests among the effects, in order.\<close>

definition requests :: "effect list \<Rightarrow> api_op list" where
  "requests es = [op. Request op \<leftarrow> es]"

section \<open>Lemmas\<close>

lemma requests_simps [simp]:
  "requests [] = []"
  "requests (Request op # es) = op # requests es"
  "requests (ShowAlert e # es) = requests es"
  "requests (AskConfirm m # es) = requests es"
  "requests (GoTo p # es) = requests es"
  "requests (GoBack # es) = requests es"
  "requests (ScrollToTop # es) = requests es"
  "requests (LogError e # es) = requests es"
  "requests (LogException # es) = requests es"
  "requests (es @ fs) = requests es @ requests fs"
  by (simp_all add: requests_def)

end
