(* ===== verification/Book_Detail.thy ===== *)
theory Book_Detail
  imports Ui
begin

text \<open>
  The detail page of \<open>src/src/pages/BookDetail.tsx\<close>: the book with its
  reviews, and the review form that either creates a review or updates the
  one being edited (\<open>editingReview\<close>). The route parameter \<open>id\<close> and the
  session read through \<open>useAuth()\<close> are parameters of every handler; the
  API is the interface \<^typ>\<open>api\<close>. Every handler returns the new state and
  its effects (\<^typ>\<open>effect\<close>), in order.
\<close>

section \<open>Data\<close>

record review =
  review_id :: string
  review_userId :: string
  review_username :: string
  review_rating :: int
  review_comment :: string
  review_createdAt :: string

record book =
  book_id :: string
  book_title :: string
  book_author :: string
  book_genre :: string
  book_year :: int
  book_description :: string
  book_imageUrl :: string
  book_userId :: string
  book_username :: string
  book_averageRating :: json
  book_reviews :: "review list"

definition decode_review :: "json \<Rightarrow> review option" where
  "decode_review v =
     (case (json_str (obj_field v ''_id''), json_str (obj_field v ''userId''),
            json_str (obj_field v ''username''), json_int (obj_field v ''rating''),
            json_str (obj_field v ''comment''), json_str (obj_field v ''createdAt'')) of
        (Some i, Some u, Some n, Some r, Some c, Some t) \<Rightarrow>
          Some \<lparr>review_id = i, review_userId = u, review_username = n, review_rating = r,
                review_comment = c, review_createdAt = t\<rparr>
      | _ \<Rightarrow> None)"

definition decode_reviews :: "json option \<Rightarrow> review list option" where
  "decode_reviews v = (case v of Some (JArr xs) \<Rightarrow> those (map decode_review xs) | _ \<Rightarrow> None)"

definition decode_book :: "json \<Rightarrow> book option" where
  "decode_book v =
     (case (json_str (obj_field v ''_id''), json_str (obj_field v ''title''),
            json_str (obj_field v ''author''), json_str (obj_field v ''genre''),
            json_int (obj_field v ''year''), json_str (obj_field v ''description''),
            json_str (obj_field v ''imageUrl''), json_str (obj_field v ''userId''),
            json_str (obj_field v ''username''), obj_field v ''averageRating'',
            decode_reviews (obj_field v ''reviews'')) of
        (Some i, Some t, Some a, Some g, Some y, Some d, Some img, Some u, Some n, Some avg, Some rs) \<Rightarrow>
          Some \<lparr>book_id = i, book_title = t, book_author = a, book_genre = g, book_year = y,
                book_description = d, book_imageUrl = img, book_userId = u, book_username = n,
                book_averageRating = avg, book_reviews = rs\<rparr>
      | _ \<Rightarrow> None)"

section \<open>State\<close>

text \<open>
  The \<open>useState\<close> hooks; \<open>crashed\<close> records that a response without the
  fields of \<open>Book\<close> was stored, so that the next render throws.
\<close>

record detail_state =
  book :: "book option"
  loading :: bool
  rating :: int
  comment :: string
  submitting :: bool
  editingReview :: "string option"
  crashed :: bool

definition detail_init :: detail_state where
  "detail_init =
     \<lparr>book = None, loading = True, rating = 5, comment = [], submitting = False,
      editingReview = None, crashed = False\<rparr>"

section \<open>Handlers\<close>

text \<open>
  \<open>loadBook()\<close>: a failed load is logged and keeps the book shown before.
  \<open>setBook(data)\<close> stores the body: a falsy body (\<open>null\<close>) is rendered as
  "Book not found"; a body without the fields of \<open>Book\<close> is recorded as
  \<open>crashed\<close>. That is exact when \<open>reviews\<close> is not an array (the render
  throws at \<open>book.reviews.find\<close>); a body with an array of reviews but other
  fields missing or untyped is outside the model.
\<close>

definition load_book :: "api \<Rightarrow> string \<Rightarrow> detail_state \<Rightarrow> detail_state \<times> effect list" where
  "load_book call i st =
     (case call (GetBook i) of
        Inl e \<Rightarrow> (st\<lparr>loading := False\<rparr>, [Request (GetBook i), LogError e])
      | Inr d \<Rightarrow>
          (if \<not> js_truthy d then (st\<lparr>book := None, loading := False\<rparr>, [Request (GetBook i)])
           else
             (case decode_book d of
                None \<Rightarrow> (st\<lparr>loading := False, crashed := True\<rparr>, [Request (GetBook i)])
              | Some b \<Rightarrow> (st\<lparr>book := Some b, loading := False\<rparr>, [Request (GetBook i)]))))"

text \<open>
  \<open>handleSubmitReview\<close>: nothing without a token; otherwise update the
  review being edited or create one, and on success reset the form and
  reload (the reload is not awaited; its result is in the returned state).
\<close>

definition review_body :: "int \<Rightarrow> string \<Rightarrow> json" where
  "review_body r c = JObj [(''rating'', JNum r), (''comment'', JStr c)]"

definition submit_op :: "string \<Rightarrow> string \<Rightarrow> detail_state \<Rightarrow> api_op" where
  "submit_op tok i st =
     (if str_truthy (editingReview st)
      then UpdateReview tok (the (editingReview st)) (review_body (rating st) (comment st))
      else CreateReview tok (JObj [(''bookId'', JStr i), (''rating'', JNum (rating st)),
                                   (''comment'', JStr (comment st))]))"

definition handle_submit_review ::
  "session \<Rightarrow> api \<Rightarrow> string \<Rightarrow> detail_state \<Rightarrow> detail_state \<times> effect list" where
  "handle_submit_review sess call i st =
     (if \<not> str_truthy (token sess) then (st, [])
      else
        (let op = submit_op (the (token sess)) i st in
         case call op of
           Inl e \<Rightarrow> (st\<lparr>submitting := False\<rparr>, [Request op, ShowAlert e])
         | Inr _ \<Rightarrow>
             (let st1 = (if str_truthy (editingReview st) then st\<lparr>editingReview := None\<rparr> else st);
                  st2 = st1\<lparr>rating := 5, comment := []\<rparr>;
                  reload = load_book call i (st2\<lparr>loading := True\<rparr>)
              in ((fst reload)\<lparr>submitting := False\<rparr>, Request op # snd reload))))"

text \<open>
  Pressing the form's submit button: it is disabled while \<open>submitting\<close>,
  and the browser does not dispatch \<open>onSubmit\<close> while the \<open>required\<close>
  comment is empty.
\<close>

definition review_form_submit ::
  "session \<Rightarrow> api \<Rightarrow> string \<Rightarrow> detail_state \<Rightarrow> detail_state \<times> effect list" where
  "review_form_submit sess call i st =
     (if submitting st \<or> comment st = [] then (st, []) else handle_submit_review sess call i st)"

text \<open>\<open>handleDeleteReview(reviewId)\<close>; \<open>ok\<close> is the answer to \<open>confirm\<close>.\<close>

definition handle_delete_review ::
  "session \<Rightarrow> api \<Rightarrow> string \<Rightarrow> string \<Rightarrow> bool \<Rightarrow> detail_state \<Rightarrow> detail_state \<times> effect list" where
  "handle_delete_review sess call i rid ok st =
     (if \<not> str_truthy (token sess) then (st, [])
      else if \<not> ok then (st, [AskConfirm ''Delete this review?''])
      else
        (let op = DeleteReview (the (token sess)) rid in
         case call op of
           Inl e \<Rightarrow> (st, [AskConfirm ''Delete this review?'', Request op, ShowAlert e])
         | Inr _ \<Rightarrow>
             (let reload = load_book call i (st\<lparr>loading := True\<rparr>)
              in (fst reload, AskConfirm ''Delete this review?'' # Request op # snd reload))))"

text \<open>\<open>handleDeleteBook\<close>: on success back to the list.\<close>

definition handle_delete_book ::
  "session \<Rightarrow> api \<Rightarrow> string \<Rightarrow> bool \<Rightarrow> detail_state \<Rightarrow> detail_state \<times> effect list" where
  "handle_delete_book sess call i ok st =
     (if \<not> str_truthy (token sess) then (st, [])
      else if \<not> ok then (st, [AskConfirm ''Delete this book and all its reviews?''])
      else
        (let op = DeleteBook (the (token sess)) i in
         case call op of
           Inl e \<Rightarrow> (st, [AskConfirm ''Delete this book and all its reviews?'', Request op, ShowAlert e])
         | Inr _ \<Rightarrow> (st, [AskConfirm ''Delete this book and all its reviews?'', Request op, GoTo ''/''])))"

text \<open>\<open>startEditReview(review)\<close> and the form's cancel button.\<close>

definition start_edit_review :: "review \<Rightarrow> detail_state \<Rightarrow> detail_state \<times> effect list" where
  "start_edit_review rv st =
     (st\<lparr>editingReview := Some (review_id rv), rating := review_rating rv, comment := review_comment rv\<rparr>,
      [ScrollToTop])"

definition cancel_edit :: "detail_state \<Rightarrow> detail_state" where
  "cancel_edit st = st\<lparr>editingReview := None, rating := 5, comment := []\<rparr>"

section \<open>What the page renders\<close>

text \<open>
  \<open>user?.id\<close> compared with a string: equal only when there is a user.
  \<open>userReview\<close> and \<open>canReview\<close> as computed before the render.
\<close>

definition is_user :: "session \<Rightarrow> string \<Rightarrow> bool" where
  "is_user sess uid \<longleftrightarrow> map_option user_id (user sess) = Some uid"

definition user_review :: "session \<Rightarrow> book \<Rightarrow> review option" where
  "user_review sess b = find (\<lambda>r. is_user sess (review_userId r)) (book_reviews b)"

definition can_review :: "session \<Rightarrow> book \<Rightarrow> bool" where
  "can_review sess b \<longleftrightarrow>
     is_authenticated sess \<and> user_review sess b = None \<and> \<not> is_user sess (book_userId b)"

datatype form_mode = Creating | Editing string

record detail_page =
  owner_controls :: bool
  review_form :: "form_mode option"
  review_controls :: "string list"
  shown_reviews :: "review list"

datatype detail_screen = DSpinner | DCrashed | DNotFound | DPage detail_page

definition detail_render :: "session \<Rightarrow> detail_state \<Rightarrow> detail_screen" where
  "detail_render sess st =
     (if crashed st then DCrashed
      else if loading st then DSpinner
      else case book st of
        None \<Rightarrow> DNotFound
      | Some b \<Rightarrow> DPage
          \<lparr>owner_controls = (is_authenticated sess \<and> is_user sess (book_userId b)),
           review_form =
             (if can_review sess b
              then Some (if str_truthy (editingReview st) then Editing (the (editingReview st)) else Creating)
              else None),
           review_controls =
             [review_id r. r \<leftarrow> book_reviews b, is_authenticated sess \<and> is_user sess (review_userId r)],
           shown_reviews = book_reviews b\<rparr>)"

text \<open>The page on mount: \<open>useEffect(() => loadBook(), [id])\<close>.\<close>

definition detail_mount :: "api \<Rightarrow> string \<Rightarrow> detail_state \<times> effect list" where
  "detail_mount call i = load_book call i detail_init"

section \<open>Fixtures for the witnesses\<close>

text \<open>
  Ann (\<open>u1\<close>) is logged in; Bob (\<open>u2\<close>) owns book \<open>b1\<close>, which has
  Ann's review \<open>r1\<close> in \<open>bob_book_reviewed\<close> and no review in \<open>bob_book\<close>.
\<close>

abbreviation ann_session :: session where
  "ann_session \<equiv> \<lparr>user = Some \<lparr>user_id = ''u1'', user_name = ''ann'', user_email = ''ann@example.org''\<rparr>,
                     token = Some ''tk''\<rparr>"

abbreviation ann_review :: review where
  "ann_review \<equiv> \<lparr>review_id = ''r1'', review_userId = ''u1'', review_username = ''ann'', review_rating = 4,
                  review_comment = ''Good'', review_createdAt = ''2024-01-01''\<rparr>"

abbreviation bob_book :: book where
  "bob_book \<equiv> \<lparr>book_id = ''b1'', book_title = ''T'', book_author = ''A'', book_genre = ''G'', book_year = 2001,
               book_description = ''D'', book_imageUrl = [], book_userId = ''u2'', book_username = ''bob'',
               book_averageRating = JNum 0, book_reviews = []\<rparr>"

abbreviation bob_book_reviewed :: book where
  "bob_book_reviewed \<equiv> bob_book\<lparr>book_reviews := [ann_review]\<rparr>"

abbreviation shown :: "book \<Rightarrow> detail_state" where
  "shown b \<equiv> detail_init\<lparr>book := Some b, loading := False\<rparr>"

abbreviation bob_book_json :: json where
  "bob_book_json \<equiv> JObj [(''_id'', JStr ''b1''), (''title'', JStr ''T''), (''author'', JStr ''A''),
     (''genre'', JStr ''G''), (''year'', JNum 2001), (''description'', JStr ''D''), (''imageUrl'', JStr []),
     (''userId'', JStr ''u2''), (''username'', JStr ''bob''), (''averageRating'', JNum 0), (''reviews'', JArr [])]"

section \<open>Lemmas\<close>

lemma load_book_error [simp]:
  "call (GetBook i) = Inl e \<Longrightarrow> load_book call i st = (st\<lparr>loading := False\<rparr>, [Request (GetBook i), LogError e])"
  by (simp add: load_book_def)

lemma decode_book_truthy: "decode_book d = Some b \<Longrightarrow> js_truthy d"
  by (cases d) (simp_all add: decode_book_def obj_field_def json_str_def)

lemma load_book_ok [simp]:
  "call (GetBook i) = Inr d \<Longrightarrow> decode_book d = Some b \<Longrightarrow>
     load_book call i st = (st\<lparr>book := Some b, loading := False\<rparr>, [Request (GetBook i)])"
  by (simp add: load_book_def decode_book_truthy)

lemma load_book_form_fields [simp]:
  "editingReview (fst (load_book call i st)) = editingReview st"
  "rating (fst (load_book call i st)) = rating st"
  "comment (fst (load_book call i st)) = comment st"
  "submitting (fst (load_book call i st)) = submitting st"
  by (simp_all add: load_book_def split: sum.split option.split)

lemma load_book_requests [simp]:
  "requests (snd (load_book call i st)) = [GetBook i]"
  by (simp add: load_book_def split: sum.split option.split)

lemma user_review_None_iff:
  "user_review sess b = None \<longleftrightarrow> (\<forall>r \<in> set (book_reviews b). \<not> is_user sess (review_userId r))"
  by (simp add: user_review_def find_None_iff_all)

lemmas render_defs = detail_render_def can_review_def user_review_def is_user_def is_authenticated_def detail_init_def

lemma can_review_no_user_review:
  "can_review sess b \<Longrightarrow> user sess = Some u \<Longrightarrow>
     book_userId b \<noteq> user_id u \<and> (\<forall>r\<in>set (book_reviews b). review_userId r \<noteq> user_id u)"
  by (auto simp: can_review_def user_review_None_iff is_user_def)

lemma decode_bob_book: "decode_book bob_book_json = Some bob_book"
  by (simp add: decode_book_def decode_reviews_def field_defs)

section \<open>Properties of the detail page\<close>

text \<open>
  C20: a user who owns the book, or who already has a review on it, never
  sees the review form: whenever the form is rendered, the logged-in user is
  neither the book's owner nor the author of any of its reviews.
\<close>

theorem review_form_hidden:
  assumes "detail_render sess st = DPage pg" and "review_form pg \<noteq> None"
    and "book st = Some b" and "user sess = Some u"
  shows "book_userId b \<noteq> user_id u \<and> (\<forall>r\<in>set (book_reviews b). review_userId r \<noteq> user_id u)"
proof -
  have "can_review sess b"
    using assms(1-3) by (auto simp: detail_render_def split: if_splits)
  then show ?thesis using assms(4) by (rule can_review_no_user_review)
qed

theorem review_form_hidden_witness:
  "review_form (case detail_render ann_session (shown bob_book) of DPage pg \<Rightarrow> pg) = Some Creating \<and>
   book_userId bob_book \<noteq> ''u1''"
proof -
  have r: "detail_render ann_session (shown bob_book) =
      DPage \<lparr>owner_controls = False, review_form = Some Creating, review_controls = [], shown_reviews = []\<rparr>"
    by (simp add: render_defs)
  have "book_userId bob_book \<noteq> ''u1''"
    using review_form_hidden [OF r] by (simp add: detail_init_def)
  then show ?thesis by (simp only: r detail_page.simps detail_screen.case) simp
qed

text \<open>
  C21: submitting the form while a review is being edited sends
  \<open>updateReview\<close> for that review, never \<open>createReview\<close>, then reloads the
  book; on success the edit is cleared and the form is reset to rating 5 and
  an empty comment.
\<close>

theorem submit_editing_updates:
  assumes "str_truthy (token sess)" and "editingReview st = Some r" and "r \<noteq> []"
    and "call (UpdateReview (the (token sess)) r (review_body (rating st) (comment st))) = Inr v"
  shows "requests (snd (handle_submit_review sess call i st)) =
           [UpdateReview (the (token sess)) r (review_body (rating st) (comment st)), GetBook i] \<and>
         editingReview (fst (handle_submit_review sess call i st)) = None \<and>
         rating (fst (handle_submit_review sess call i st)) = 5 \<and>
         comment (fst (handle_submit_review sess call i st)) = [] \<and>
         \<not> submitting (fst (handle_submit_review sess call i st))"
  using assms
  by (simp add: handle_submit_review_def submit_op_def Let_def)

theorem submit_editing_updates_witness:
  "requests (snd (handle_submit_review ann_session (\<lambda>_. Inr JNull) ''b1'' ((shown bob_book)\<lparr>editingReview := Some ''r1''\<rparr>))) =
     [UpdateReview ''tk'' ''r1'' (review_body 5 []), GetBook ''b1'']"
  using submit_editing_updates [of ann_session "(shown bob_book)\<lparr>editingReview := Some ''r1''\<rparr>" "''r1''"
      "\<lambda>_. Inr JNull" JNull "''b1''"]
  by (simp add: detail_init_def)


text \<open>
  C22: submitting the form when no review is being edited sends
  \<open>createReview\<close> with the book id, the rating and the comment, then reloads
  the book, and the form is reset.
\<close>

theorem submit_creating_creates:
  assumes "str_truthy (token sess)" and "\<not> str_truthy (editingReview st)"
    and "call (CreateReview (the (token sess)) (JObj [(''bookId'', JStr i), (''rating'', JNum (rating st)),
           (''comment'', JStr (comment st))])) = Inr v"
  shows "requests (snd (handle_submit_review sess call i st)) =
           [CreateReview (the (token sess)) (JObj [(''bookId'', JStr i), (''rating'', JNum (rating st)),
              (''comment'', JStr (comment st))]), GetBook i] \<and>
         rating (fst (handle_submit_review sess call i st)) = 5 \<and>
         comment (fst (handle_submit_review sess call i st)) = []"
  using assms
  by (simp add: handle_submit_review_def submit_op_def Let_def)

theorem submit_creating_creates_witness:
  "requests (snd (handle_submit_review ann_session (\<lambda>_. Inr JNull) ''b1'' (shown bob_book))) =
     [CreateReview ''tk'' (JObj [(''bookId'', JStr ''b1''), (''rating'', JNum 5), (''comment'', JStr [])]), GetBook ''b1'']"
  using submit_creating_creates [of ann_session "shown bob_book" "\<lambda>_. Inr JNull" "''b1''" JNull]
  by (simp add: detail_init_def)


text \<open>
  C23: a failed submission shows the error in an alert and keeps what the
  user typed (rating, comment, the review being edited); the book is not
  reloaded.
\<close>

theorem submit_failure_keeps_form:
  assumes "str_truthy (token sess)" and "call (submit_op (the (token sess)) i st) = Inl e"
  shows "handle_submit_review sess call i st =
           (st\<lparr>submitting := False\<rparr>, [Request (submit_op (the (token sess)) i st), ShowAlert e])"
  using assms by (simp add: handle_submit_review_def)

theorem submit_failure_keeps_form_witness:
  "handle_submit_review ann_session (\<lambda>_. Inl FetchFailed) ''b1'' ((shown bob_book)\<lparr>comment := ''Nice''\<rparr>) =
     ((shown bob_book)\<lparr>comment := ''Nice''\<rparr>,
      [Request (CreateReview ''tk'' (JObj [(''bookId'', JStr ''b1''), (''rating'', JNum 5), (''comment'', JStr ''Nice'')])),
       ShowAlert FetchFailed])"
  using submit_failure_keeps_form [of ann_session "\<lambda>_. Inl FetchFailed" "''b1''" "(shown bob_book)\<lparr>comment := ''Nice''\<rparr>" FetchFailed]
  by (simp add: detail_init_def submit_op_def)


text \<open>
  C24: the edit button of a review is shown only to its author, and for
  that user \<open>canReview\<close> is false; so clicking it sets \<open>editingReview\<close>
  but the form stays hidden: a review can never be edited through the page.
\<close>

theorem edit_button_hides_form:
  assumes "\<not> crashed st" and "\<not> loading st" and "book st = Some b"
    and "rv \<in> set (book_reviews b)" and "is_authenticated sess" and "is_user sess (review_userId rv)"
  shows "\<exists>pg. detail_render sess (fst (start_edit_review rv st)) = DPage pg \<and> review_form pg = None \<and>
              editingReview (fst (start_edit_review rv st)) = Some (review_id rv)"
proof -
  have "\<not> can_review sess b"
    using assms(4,6) by (auto simp: can_review_def user_review_None_iff)
  then show ?thesis using assms(1-3) by (simp add: start_edit_review_def detail_render_def)
qed

theorem edit_button_hides_form_witness:
  "\<exists>pg. detail_render ann_session (fst (start_edit_review ann_review (shown bob_book_reviewed))) = DPage pg \<and>
      review_form pg = None"
proof -
  have "is_authenticated ann_session" "is_user ann_session (review_userId ann_review)"
    by (simp_all add: is_authenticated_def is_user_def)
  from edit_button_hides_form [of "shown bob_book_reviewed" bob_book_reviewed ann_review, OF _ _ _ _ this]
  show ?thesis by (auto simp: detail_init_def)
qed


text \<open>
  C25: deleting a review does not clear \<open>editingReview\<close>; when the user
  was editing and the reloaded book lets them review again, the form comes
  back in edit mode for the review that no longer exists.
\<close>

theorem delete_keeps_stale_edit:
  assumes "str_truthy (token sess)" and "editingReview st = Some r" and "r \<noteq> []" and "\<not> crashed st"
    and "call (DeleteReview (the (token sess)) rid) = Inr v"
    and "call (GetBook i) = Inr d" and "decode_book d = Some b'" and "can_review sess b'"
  shows "\<exists>pg. detail_render sess (fst (handle_delete_review sess call i rid True st)) = DPage pg \<and>
              review_form pg = Some (Editing r)"
  using assms by (simp add: handle_delete_review_def detail_render_def)

theorem delete_keeps_stale_edit_witness:
  "\<exists>pg. detail_render ann_session
      (fst (handle_delete_review ann_session (\<lambda>op. case op of GetBook _ \<Rightarrow> Inr bob_book_json | _ \<Rightarrow> Inr JNull)
         ''b1'' ''r1'' True (fst (start_edit_review ann_review (shown bob_book_reviewed))))) = DPage pg \<and>
    review_form pg = Some (Editing ''r1'')"
proof -
  have "can_review ann_session bob_book"
    by (simp add: can_review_def user_review_def is_user_def is_authenticated_def)
  from delete_keeps_stale_edit [of ann_session "fst (start_edit_review ann_review (shown bob_book_reviewed))" "''r1''"
      "\<lambda>op. case op of GetBook _ \<Rightarrow> Inr bob_book_json | _ \<Rightarrow> Inr JNull" "''r1''" JNull "''b1''" bob_book_json bob_book,
      OF _ _ _ _ _ _ decode_bob_book this]
  show ?thesis by (simp add: start_edit_review_def detail_init_def)
qed


text \<open>
  C26: the specification's scenario: when \<open>deleteReview\<close> fails (for
  instance with \<open>{error: "Not authorized"}\<close>) the user sees the error in an
  alert, the page state is unchanged and the reviews are not fetched again.
\<close>

theorem delete_review_failure_alerts:
  assumes "str_truthy (token sess)" and "call (DeleteReview (the (token sess)) rid) = Inl e"
  shows "handle_delete_review sess call i rid True st =
           (st, [AskConfirm ''Delete this review?'', Request (DeleteReview (the (token sess)) rid), ShowAlert e])"
  using assms by (simp add: handle_delete_review_def)

theorem delete_review_failure_alerts_witness:
  "handle_delete_review ann_session
     (api_call (\<lambda>_. Some \<lparr>status = 403, resp_body = Some (JObj [(''error'', JStr ''Not authorized'')])\<rparr>))
     ''b1'' ''r1'' True (shown bob_book_reviewed) =
   (shown bob_book_reviewed, [AskConfirm ''Delete this review?'', Request (DeleteReview ''tk'' ''r1''),
      ShowAlert (ApiFailure ''Not authorized'')])"
  using delete_review_failure_alerts [of ann_session
      "api_call (\<lambda>_. Some \<lparr>status = 403, resp_body = Some (JObj [(''error'', JStr ''Not authorized'')])\<rparr>)"
      "''r1''" "ApiFailure ''Not authorized''" "''b1''" "shown bob_book_reviewed"]
  by (simp add: checked_body_def res_ok_def)


text \<open>
  C27: the specification's scenario: when \<open>getBook\<close> fails (a 404), the
  page shows "Book not found" and issues no request besides that one.
\<close>

theorem missing_book_not_found:
  assumes "call (GetBook i) = Inl e"
  shows "requests (snd (detail_mount call i)) = [GetBook i] \<and>
         detail_render sess (fst (detail_mount call i)) = DNotFound"
  using assms by (simp add: detail_mount_def detail_render_def detail_init_def)
theorem missing_book_not_found_witness:
  "requests (snd (detail_mount (api_call (\<lambda>_. Some \<lparr>status = 404, resp_body = Some (JObj [])\<rparr>)) ''abc'')) = [GetBook ''abc''] \<and>
   detail_render ann_session (fst (detail_mount (api_call (\<lambda>_. Some \<lparr>status = 404, resp_body = Some (JObj [])\<rparr>)) ''abc'')) = DNotFound"
  using missing_book_not_found [of "api_call (\<lambda>_. Some \<lparr>status = 404, resp_body = Some (JObj [])\<rparr>)"
      "''abc''" "ApiFailure ''Failed to fetch book''" ann_session]
  by (simp add: checked_plain_def res_ok_def)

text \<open>
  C37: deleting a book never changes the page's state, and it requests
  \<open>deleteBook\<close> exactly when the user is logged in and accepts the
  confirmation, after asking; on success it then returns to the list.
\<close>

theorem delete_book_needs_confirm:
  "fst (handle_delete_book sess call i ok st) = st \<and>
   requests (snd (handle_delete_book sess call i ok st)) =
     (if ok \<and> str_truthy (token sess) then [DeleteBook (the (token sess)) i] else []) \<and>
   (call (DeleteBook (the (token sess)) i) = Inr d \<longrightarrow> ok \<longrightarrow> str_truthy (token sess) \<longrightarrow>
      snd (handle_delete_book sess call i ok st) =
        [AskConfirm ''Delete this book and all its reviews?'', Request (DeleteBook (the (token sess)) i), GoTo ''/''])"
  by (auto simp: handle_delete_book_def Let_def split: sum.split)

theorem delete_book_needs_confirm_witness:
  "requests (snd (handle_delete_book ann_session (\<lambda>_. Inr JNull) ''b7'' False detail_init)) = [] \<and>
   snd (handle_delete_book ann_session (\<lambda>_. Inr JNull) ''b7'' True detail_init) =
     [AskConfirm ''Delete this book and all its reviews?'', Request (DeleteBook ''tk'' ''b7''), GoTo ''/'']"
  using delete_book_needs_confirm [of ann_session "\<lambda>_. Inr JNull" "''b7''" False detail_init JNull]
    delete_book_needs_confirm [of ann_session "\<lambda>_. Inr JNull" "''b7''" True detail_init JNull]
  by simp

end
