(* ===== verification/Book_Form.thy ===== *)
theory Book_Form
  imports Ui Complex_Main
begin

text \<open>
  The add/edit form of \<open>src/src/pages/BookForm.tsx\<close>. The route parameter
  \<open>id\<close> is \<open>None\<close> on \<open>/add-book\<close>; \<open>isEdit\<close> is its truthiness. The
  browser dispatches \<open>onSubmit\<close> only when the form passes constraint
  validation (the \<open>required\<close>, \<open>type\<close>, \<open>min\<close> and \<open>max\<close> attributes);
  \<open>form_valid\<close> models that check, with the validity of a URL as a parameter
  \<open>url_ok\<close>. A year field of \<open>type="number"\<close> holds either the empty string
  or a valid floating-point number as HTML defines it (\<open>html_float\<close>).
\<close>

section \<open>Numbers in an input of type number\<close>

definition is_digit :: "char \<Rightarrow> bool" where
  "is_digit c \<longleftrightarrow> 48 \<le> (of_char c :: nat) \<and> (of_char c :: nat) \<le> 57"

definition dec_value :: "string \<Rightarrow> nat" where
  "dec_value ds = digits_value 10 (map (\<lambda>c. of_char c - 48) ds)"

definition parse_exponent :: "string \<Rightarrow> int option" where
  "parse_exponent t =
     (let (sg, u) = (case t of
                       c # r \<Rightarrow> if c = CHR ''-'' then (-1, r) else if c = CHR ''+'' then (1, r) else (1, t)
                     | [] \<Rightarrow> (1, [])) in
      if u \<noteq> [] \<and> list_all is_digit u then Some (sg * int (dec_value u)) else None)"

text \<open>
  A valid floating-point number: an optional \<open>-\<close>, digits, a \<open>.\<close> followed
  by digits, or both, and an optional exponent; its value as a rational.
\<close>

definition html_float :: "string \<Rightarrow> rat option" where
  "html_float s =
     (let (neg, r0) = (case s of c # t \<Rightarrow> if c = CHR ''-'' then (True, t) else (False, s) | [] \<Rightarrow> (False, []));
          ip = takeWhile is_digit r0;
          r1 = dropWhile is_digit r0;
          (dot, fp, r2) = (case r1 of
                             c # t \<Rightarrow> if c = CHR ''.'' then (True, takeWhile is_digit t, dropWhile is_digit t)
                                      else (False, [], r1)
                           | [] \<Rightarrow> (False, [], []));
          ex = (case r2 of
                  [] \<Rightarrow> Some 0
                | c # t \<Rightarrow> if c = CHR ''e'' \<or> c = CHR ''E'' then parse_exponent t else None)
      in if (ip = [] \<and> fp = []) \<or> (dot \<and> fp = []) then None
         else case ex of
           None \<Rightarrow> None
         | Some e \<Rightarrow>
             Some ((if neg then -1 else 1) * of_nat (dec_value (ip @ fp)) / 10 ^ length fp *
                   (if 0 \<le> e then 10 ^ nat e else 1 / 10 ^ nat (- e))))"

text \<open>\<open>required min="1000" max="2100"\<close>, with the default step 1 from the minimum.\<close>

definition year_valid :: "string \<Rightarrow> bool" where
  "year_valid y =
     (case html_float y of
        None \<Rightarrow> False
      | Some v \<Rightarrow> 1000 \<le> v \<and> v \<le> 2100 \<and> v = of_int \<lfloor>v\<rfloor>)"

section \<open>State and handlers\<close>

record form_state =
  title :: string
  author :: string
  genre :: string
  year :: string
  description :: string
  imageUrl :: string
  loading :: bool
  error :: "api_error option"

definition form_init :: form_state where
  "form_init =
     \<lparr>title = [], author = [], genre = [], year = [], description = [], imageUrl = [],
      loading = False, error = None\<rparr>"

definition form_valid :: "(string \<Rightarrow> bool) \<Rightarrow> form_state \<Rightarrow> bool" where
  "form_valid url_ok st \<longleftrightarrow>
     title st \<noteq> [] \<and> author st \<noteq> [] \<and> genre st \<noteq> [] \<and> year_valid (year st) \<and>
     description st \<noteq> [] \<and> (imageUrl st = [] \<or> url_ok (imageUrl st))"

text \<open>
  A book whose fields have the types the form expects: strings and an integer
  year.
\<close>

definition decode_form_book ::
  "json \<Rightarrow> (string \<times> string \<times> string \<times> int \<times> string \<times> string) option" where
  "decode_form_book d =
     (case (json_str (obj_field d ''title''), json_str (obj_field d ''author''),
            json_str (obj_field d ''genre''), json_int (obj_field d ''year''),
            json_str (obj_field d ''description''), json_str (obj_field d ''imageUrl'')) of
        (Some t, Some a, Some g, Some y, Some dsc, Some img) \<Rightarrow> Some (t, a, g, y, dsc, img)
      | _ \<Rightarrow> None)"

text \<open>
  The value an input shows for \<open>setTitle(data.title)\<close>: the string, or an
  empty field for \<open>undefined\<close> and \<open>null\<close>. (A value of another type is
  shown as the empty field too; the server sends strings.)
\<close>

definition input_text :: "json option \<Rightarrow> string" where
  "input_text v = (case json_str v of Some s \<Rightarrow> s | None \<Rightarrow> [])"

text \<open>
  \<open>loadBook\<close>: the setters run in order inside the \<open>try\<close>. A \<open>null\<close>
  body throws at \<open>data.title\<close> before any field is set; a missing or
  \<open>null\<close> year throws at \<open>data.year.toString()\<close> after title, author and
  genre are set. A caught exception is logged.
\<close>

definition form_load_book :: "api \<Rightarrow> string \<Rightarrow> form_state \<Rightarrow> form_state \<times> effect list" where
  "form_load_book call i st =
     (case call (GetBook i) of
        Inl e \<Rightarrow> (st, [Request (GetBook i), LogError e])
      | Inr d \<Rightarrow>
          (if d = JNull then (st, [Request (GetBook i), LogException])
           else
             (let st1 = st\<lparr>title := input_text (obj_field d ''title''), author := input_text (obj_field d ''author''),
                           genre := input_text (obj_field d ''genre'')\<rparr> in
              case obj_field d ''year'' of
                None \<Rightarrow> (st1, [Request (GetBook i), LogException])
              | Some JNull \<Rightarrow> (st1, [Request (GetBook i), LogException])
              | Some y \<Rightarrow>
                  (st1\<lparr>year := js_to_string y, description := input_text (obj_field d ''description''),
                       imageUrl := input_text (obj_field d ''imageUrl'')\<rparr>, [Request (GetBook i)]))))"

text \<open>\<open>useEffect(() => { if (isEdit && id) loadBook(); }, [id])\<close>.\<close>

definition form_mount :: "api \<Rightarrow> string option \<Rightarrow> form_state \<times> effect list" where
  "form_mount call i =
     (if str_truthy i then form_load_book call (the i) form_init else (form_init, []))"

text \<open>
  The body of the request: \<open>parseInt(year)\<close>, whose \<open>NaN\<close> \<open>JSON.stringify\<close>
  writes as \<open>null\<close>, and \<open>imageUrl || undefined\<close>, which drops the key.
\<close>

definition book_data :: "form_state \<Rightarrow> json" where
  "book_data st =
     JObj ([(''title'', JStr (title st)), (''author'', JStr (author st)), (''genre'', JStr (genre st)),
            (''year'', (case js_parseInt (year st) of Some n \<Rightarrow> JNum n | None \<Rightarrow> JNull)),
            (''description'', JStr (description st))] @
           (if imageUrl st \<noteq> [] then [(''imageUrl'', JStr (imageUrl st))] else []))"

definition form_op :: "string \<Rightarrow> string option \<Rightarrow> form_state \<Rightarrow> api_op" where
  "form_op tok i st =
     (if str_truthy i then UpdateBook tok (the i) (book_data st) else CreateBook tok (book_data st))"

text \<open>\<open>handleSubmit\<close>: success goes back to the list, failure shows the message.\<close>

definition handle_submit ::
  "session \<Rightarrow> api \<Rightarrow> string option \<Rightarrow> form_state \<Rightarrow> form_state \<times> effect list" where
  "handle_submit sess call i st =
     (if \<not> str_truthy (token sess) then (st, [])
      else
        (let op = form_op (the (token sess)) i st in
         case call op of
           Inl e \<Rightarrow> (st\<lparr>error := Some e, loading := False\<rparr>, [Request op])
         | Inr _ \<Rightarrow> (st\<lparr>error := None, loading := False\<rparr>, [Request op, GoTo ''/''])))"

text \<open>Pressing the submit button: the browser validates, then \<open>onSubmit\<close> runs.\<close>

definition form_submit ::
  "(string \<Rightarrow> bool) \<Rightarrow> session \<Rightarrow> api \<Rightarrow> string option \<Rightarrow> form_state \<Rightarrow> form_state \<times> effect list" where
  "form_submit url_ok sess call i st =
     (if form_valid url_ok st then handle_submit sess call i st else (st, []))"

section \<open>Lemmas\<close>

lemma is_digit_char: "(d::nat) < 10 \<Longrightarrow> is_digit (char_of (48 + d))"
  by (simp add: is_digit_def of_char_digit)

lemma digit_val_is_digit: "is_digit c \<Longrightarrow> digit_val 10 c = Some (of_char c - 48)"
proof -
  assume "is_digit c"
  then have "48 \<le> (of_char c :: nat)" "(of_char c :: nat) \<le> 57" by (simp_all add: is_digit_def)
  moreover have "(of_char c :: nat) - 48 < 10" using calculation by linarith
  ultimately show ?thesis by (simp add: Let_def)
qed

lemma digit_prefix_digits:
  "list_all is_digit s \<Longrightarrow> digit_prefix 10 s = map (\<lambda>c. of_char c - 48) s"
  by (induction s) (simp_all add: digit_val_is_digit del: digit_val.simps)

lemma string_of_nat_digits: "list_all is_digit (string_of_nat n)"
  using string_of_nat_chars is_digit_char by (auto simp: list_all_iff)

lemma dec_value_string_of_nat: "dec_value (string_of_nat n) = n"
  using value_string_of_nat [of n] digit_prefix_digits [OF string_of_nat_digits]
  by (simp add: dec_value_def)

lemma html_float_digits:
  assumes "list_all is_digit s" and "s \<noteq> []"
  shows "html_float s = Some (of_nat (dec_value s))"
proof -
  obtain c t where s: "s = c # t" using assms(2) by (cases s) auto
  have "c \<noteq> CHR ''-''" using assms(1) s by (auto simp: is_digit_def)
  moreover have "takeWhile is_digit s = s" "dropWhile is_digit s = []"
    using assms(1) by (simp_all add: list_all_iff)
  ultimately show ?thesis using assms(2) s by (simp add: html_float_def)
qed

lemma parseInt_digits:
  assumes "list_all is_digit s" and "s \<noteq> []"
  shows "js_parseInt s = Some (int (dec_value s))"
proof -
  obtain c t where s: "s = c # t" using assms(2) by (cases s) auto
  have c: "is_digit c" using assms(1) s by simp
  then have nc: "c \<noteq> CHR ''-'' \<and> c \<noteq> CHR ''+'' \<and> \<not> js_space c"
    by (auto simp: is_digit_def js_space_def)
  have body: "parse_unsigned s = Some (dec_value s)"
  proof (cases t)
    case Nil
    with s c show ?thesis
      by (simp add: parse_unsigned_def dec_value_def digit_prefix_digits del: digit_prefix.simps)
  next
    case (Cons c1 rest)
    with assms(1) s have "is_digit c1" by simp
    then have "c1 \<noteq> CHR ''x'' \<and> c1 \<noteq> CHR ''X''" by (auto simp: is_digit_def)
    with Cons s assms(1) show ?thesis
      by (simp add: parse_unsigned_def dec_value_def digit_prefix_digits del: digit_prefix.simps)
  qed
  show ?thesis using s nc body by (simp add: js_parseInt_def)
qed

lemma string_of_int_pos: "0 \<le> y \<Longrightarrow> string_of_int y = string_of_nat (nat y)"
  by (simp add: string_of_int_def)

lemma year_valid_string_of_int:
  assumes "1000 \<le> y" and "y \<le> 2100"
  shows "year_valid (string_of_int y)"
proof -
  have "html_float (string_of_int y) = Some (of_int y)"
    using assms string_of_nat_digits string_of_nat_nonempty
    by (simp add: string_of_int_pos html_float_digits dec_value_string_of_nat)
  then show ?thesis using assms by (simp add: year_valid_def)
qed

lemma decode_form_book_fields:
  assumes "decode_form_book d = Some (t, a, g, y, dsc, img)"
  shows "d \<noteq> JNull" "obj_field d ''year'' = Some (JNum y)"
    "input_text (obj_field d ''title'') = t" "input_text (obj_field d ''author'') = a"
    "input_text (obj_field d ''genre'') = g" "input_text (obj_field d ''description'') = dsc"
    "input_text (obj_field d ''imageUrl'') = img"
  using assms
  by (auto simp: decode_form_book_def input_text_def json_str_def json_int_def obj_field_def
      split: option.splits json.splits)

lemma form_load_book_typed:
  assumes "call (GetBook i) = Inr d" and "decode_form_book d = Some (t, a, g, y, dsc, img)"
  shows "form_load_book call i st =
           (st\<lparr>title := t, author := a, genre := g, year := string_of_int y, description := dsc,
               imageUrl := img\<rparr>, [Request (GetBook i)])"
  using assms(1) decode_form_book_fields [OF assms(2)] by (simp add: form_load_book_def)

lemma handle_submit_requests:
  "str_truthy (token sess) \<Longrightarrow> requests (snd (handle_submit sess call i st)) = [form_op (the (token sess)) i st]"
  by (simp add: handle_submit_def Let_def split: sum.split)

section \<open>Properties of the book form\<close>

text \<open>
  C14: editing round trip. Loading a book into the edit form and submitting
  it unchanged sends \<open>updateBook\<close> for that book with exactly the loaded
  title, author, genre, year and description (the year goes through
  \<open>year.toString()\<close> and back through \<open>parseInt\<close>), and the cover URL
  only when it is not empty.
\<close>

theorem edit_form_roundtrip:
  assumes "call (GetBook i) = Inr d" and "decode_form_book d = Some (t, a, g, y, dsc, img)"
    and "i \<noteq> []" and "str_truthy (token sess)"
    and "t \<noteq> []" and "a \<noteq> []" and "g \<noteq> []" and "dsc \<noteq> []"
    and "1000 \<le> y" and "y \<le> 2100" and "img = [] \<or> url_ok img"
  shows "requests (snd (form_submit url_ok sess call (Some i) (fst (form_mount call (Some i))))) =
           [UpdateBook (the (token sess)) i
              (JObj ([(''title'', JStr t), (''author'', JStr a), (''genre'', JStr g), (''year'', JNum y),
                      (''description'', JStr dsc)] @ (if img \<noteq> [] then [(''imageUrl'', JStr img)] else [])))]"
proof -
  let ?st = "form_init\<lparr>title := t, author := a, genre := g, year := string_of_int y,
                        description := dsc, imageUrl := img\<rparr>"
  have mount: "fst (form_mount call (Some i)) = ?st"
    using assms(3) form_load_book_typed [of call i, OF assms(1,2)] by (simp add: form_mount_def)
  have valid: "form_valid url_ok ?st"
    using assms(5-11) year_valid_string_of_int by (simp add: form_valid_def form_init_def)
  have "book_data ?st = JObj ([(''title'', JStr t), (''author'', JStr a), (''genre'', JStr g), (''year'', JNum y),
                      (''description'', JStr dsc)] @ (if img \<noteq> [] then [(''imageUrl'', JStr img)] else []))"
    by (simp add: book_data_def form_init_def parseInt_string_of_int)
  moreover have "requests (snd (handle_submit sess call (Some i) ?st)) = [form_op (the (token sess)) (Some i) ?st]"
    using assms(4) by (rule handle_submit_requests)
  ultimately show ?thesis using mount valid assms(3)
    by (simp add: form_submit_def form_op_def)
qed

theorem edit_form_roundtrip_witness:
  "requests (snd (form_submit (\<lambda>_. True) \<lparr>user = Some \<lparr>user_id = ''u1'', user_name = ''ann'', user_email = ''ann@example.org''\<rparr>, token = Some ''tk''\<rparr> (\<lambda>_. Inr (JObj [(''title'', JStr ''T''), (''author'', JStr ''A''), (''genre'', JStr ''G''), (''year'', JNum 2001), (''description'', JStr ''D''), (''imageUrl'', JStr [])]))
      (Some ''b1'') (fst (form_mount (\<lambda>_. Inr (JObj [(''title'', JStr ''T''), (''author'', JStr ''A''), (''genre'', JStr ''G''), (''year'', JNum 2001), (''description'', JStr ''D''), (''imageUrl'', JStr [])])) (Some ''b1''))))) =
   [UpdateBook ''tk'' ''b1'' (JObj [(''title'', JStr ''T''), (''author'', JStr ''A''), (''genre'', JStr ''G''),
      (''year'', JNum 2001), (''description'', JStr ''D'')])]"
proof -
  have dec: "decode_form_book (JObj [(''title'', JStr ''T''), (''author'', JStr ''A''), (''genre'', JStr ''G''), (''year'', JNum 2001), (''description'', JStr ''D''), (''imageUrl'', JStr [])]) = Some (''T'', ''A'', ''G'', 2001, ''D'', [])"
    by (simp add: decode_form_book_def field_defs)
  show ?thesis
    using edit_form_roundtrip [of "\<lambda>_. Inr (JObj [(''title'', JStr ''T''), (''author'', JStr ''A''), (''genre'', JStr ''G''), (''year'', JNum 2001), (''description'', JStr ''D''), (''imageUrl'', JStr [])])" "''b1''", OF _ dec, of "\<lparr>user = Some \<lparr>user_id = ''u1'', user_name = ''ann'', user_email = ''ann@example.org''\<rparr>, token = Some ''tk''\<rparr>" "\<lambda>_. True"]
    by simp
qed

text \<open>
  C28: the form does not send the year the browser validated. The year input
  accepts every valid floating-point number between 1000 and 2100, such as
  \<open>1e3\<close>; a form holding it passes validation, and submitting it sends
  \<open>createBook\<close> with the year \<open>parseInt(year)\<close>, here 1 instead of 1000.
\<close>

theorem year_exponent_mismatch:
  assumes "str_truthy (token sess)"
  shows "\<exists>st v b n. form_valid url_ok st \<and> html_float (year st) = Some v \<and>
           requests (snd (form_submit url_ok sess call None st)) = [CreateBook (the (token sess)) b] \<and>
           obj_field b ''year'' = Some (JNum n) \<and> of_int n \<noteq> v"
proof -
  let ?st = "form_init\<lparr>title := ''T'', author := ''A'', genre := ''G'', year := ''1e3'', description := ''D''\<rparr>"
  have f: "html_float ''1e3'' = Some 1000"
    by (simp add: html_float_def is_digit_def parse_exponent_def dec_value_def digits_value_def)
  have p: "js_parseInt ''1e3'' = Some 1"
    by (simp add: js_parseInt_def js_space_def parse_unsigned_def digits_value_def)
  have v: "form_valid url_ok ?st" using f by (simp add: form_valid_def form_init_def year_valid_def)
  have r: "requests (snd (form_submit url_ok sess call None ?st)) = [CreateBook (the (token sess)) (book_data ?st)]"
    using v handle_submit_requests [OF assms] by (simp add: form_submit_def form_op_def)
  have "obj_field (book_data ?st) ''year'' = Some (JNum 1)"
    using p by (simp add: book_data_def form_init_def obj_field_def)
  with v f r show ?thesis by fastforce
qed

theorem year_exponent_mismatch_witness:
  "\<exists>st v b n. form_valid (\<lambda>_. True) st \<and> html_float (year st) = Some v \<and>
     requests (snd (form_submit (\<lambda>_. True) \<lparr>user = None, token = Some ''tk''\<rparr> (\<lambda>_. Inr JNull) None st)) =
       [CreateBook ''tk'' b] \<and>
     obj_field b ''year'' = Some (JNum n) \<and> of_int n \<noteq> v"
  using year_exponent_mismatch [of "\<lparr>user = None, token = Some ''tk''\<rparr>" "\<lambda>_. True" "\<lambda>_. Inr JNull"] by simp

text \<open>
  C29: a year typed as plain digits that passes validation is sent as
  exactly the number the browser validated, so within 1000 to 2100.
\<close>

theorem plain_year_agrees:
  assumes "form_valid url_ok st" and "list_all is_digit (year st)"
  shows "\<exists>n. obj_field (book_data st) ''year'' = Some (JNum n) \<and> html_float (year st) = Some (of_int n) \<and>
             1000 \<le> n \<and> n \<le> 2100"
proof -
  have yv: "year_valid (year st)" using assms(1) by (simp add: form_valid_def)
  then have ne: "year st \<noteq> []" by (auto simp: year_valid_def html_float_def)
  let ?n = "int (dec_value (year st))"
  have h: "html_float (year st) = Some (of_int ?n)" using ne assms(2) by (simp add: html_float_digits)
  moreover have "obj_field (book_data st) ''year'' = Some (JNum ?n)"
    using ne assms(2) by (simp add: book_data_def obj_field_def parseInt_digits)
  moreover have "1000 \<le> ?n \<and> ?n \<le> 2100" using yv h by (simp add: year_valid_def)
  ultimately show ?thesis by blast
qed

theorem plain_year_agrees_witness:
  "\<exists>n. obj_field (book_data (form_init\<lparr>title := ''T'', author := ''A'', genre := ''G'', year := ''2001'', description := ''D''\<rparr>)) ''year'' = Some (JNum n) \<and>
       html_float ''2001'' = Some (of_int n) \<and> 1000 \<le> n \<and> n \<le> 2100"
proof -
  have "form_valid (\<lambda>_. True) (form_init\<lparr>title := ''T'', author := ''A'', genre := ''G'', year := ''2001'', description := ''D''\<rparr>)"
    by (simp add: form_valid_def form_init_def year_valid_def html_float_def is_digit_def dec_value_def digits_value_def)
  moreover have "list_all is_digit (year (form_init\<lparr>title := ''T'', author := ''A'', genre := ''G'', year := ''2001'', description := ''D''\<rparr>))"
    by (simp add: is_digit_def form_init_def)
  ultimately show ?thesis using plain_year_agrees by fastforce
qed

text \<open>
  C30: a successful \<open>createBook\<close> clears the error and navigates to the
  list, after exactly one request.
\<close>

theorem create_submit_navigates:
  assumes "str_truthy (token sess)" and "call (CreateBook (the (token sess)) (book_data st)) = Inr v"
  shows "handle_submit sess call None st =
           (st\<lparr>error := None, loading := False\<rparr>, [Request (CreateBook (the (token sess)) (book_data st)), GoTo ''/''])"
  using assms by (simp add: handle_submit_def form_op_def)

theorem create_submit_navigates_witness:
  "handle_submit \<lparr>user = Some \<lparr>user_id = ''u1'', user_name = ''ann'', user_email = ''ann@example.org''\<rparr>, token = Some ''tk''\<rparr> (\<lambda>_. Inr JNull) None form_init =
     (form_init, [Request (CreateBook ''tk'' (book_data form_init)), GoTo ''/''])"
  using create_submit_navigates [of "\<lparr>user = Some \<lparr>user_id = ''u1'', user_name = ''ann'', user_email = ''ann@example.org''\<rparr>, token = Some ''tk''\<rparr>" "\<lambda>_. Inr JNull" form_init JNull]
  by (simp add: form_init_def)

text \<open>
  C31: a failed submission shows the error above the form, keeps every
  field as typed and does not navigate.
\<close>

theorem submit_failure_shows_error:
  assumes "str_truthy (token sess)" and "call (form_op (the (token sess)) i st) = Inl e"
  shows "handle_submit sess call i st = (st\<lparr>error := Some e, loading := False\<rparr>, [Request (form_op (the (token sess)) i st)])"
  using assms by (simp add: handle_submit_def)

theorem submit_failure_shows_error_witness:
  "handle_submit \<lparr>user = Some \<lparr>user_id = ''u1'', user_name = ''ann'', user_email = ''ann@example.org''\<rparr>, token = Some ''tk''\<rparr> (\<lambda>_. Inl FetchFailed) None form_init =
     (form_init\<lparr>error := Some FetchFailed\<rparr>, [Request (CreateBook ''tk'' (book_data form_init))])"
  using submit_failure_shows_error [of "\<lparr>user = Some \<lparr>user_id = ''u1'', user_name = ''ann'', user_email = ''ann@example.org''\<rparr>, token = Some ''tk''\<rparr>" "\<lambda>_. Inl FetchFailed" None form_init FetchFailed]
  by (simp add: form_init_def form_op_def)


end
