(* ===== verification/Profile.thy ===== *)
theory Profile
  imports Ui Complex_Main
begin

text \<open>
  The profile page of \<open>src/src/pages/Profile.tsx\<close>: \<open>loadProfile\<close>, run
  once on mount, and the two rating-distribution charts, whose bar widths
  are percentages of the largest count. A distribution is the JSON object the
  server sends, keyed by the rating as a string; \<open>dist[rating]\<close> reads the
  key \<open>String(rating)\<close>.
\<close>

record stats =
  totalBooks :: int
  totalReviewsGiven :: int
  totalReviewsReceived :: int
  ratingDistribution :: "(string \<times> int) list"
  givenRatingDistribution :: "(string \<times> int) list"

record profile_state =
  myBooks :: "json list"
  reviewsGiven :: "json list"
  reviewsReceived :: "json list"
  stats :: "stats option"
  loading :: bool
  crashed :: bool

definition profile_init :: profile_state where
  "profile_init =
     \<lparr>myBooks = [], reviewsGiven = [], reviewsReceived = [], stats = None, loading = True, crashed = False\<rparr>"

definition json_arr :: "json option \<Rightarrow> json list option" where
  "json_arr v = (case v of Some (JArr xs) \<Rightarrow> Some xs | _ \<Rightarrow> None)"

definition decode_dist :: "json option \<Rightarrow> (string \<times> int) list option" where
  "decode_dist v =
     (case v of
        Some (JObj kvs) \<Rightarrow> those (map (\<lambda>(k, x). case x of JNum n \<Rightarrow> Some (k, n) | _ \<Rightarrow> None) (json_entries kvs))
      | _ \<Rightarrow> None)"

text \<open>
  The totals are shown as \<open>stats?.totalBooks || 0\<close>: a missing number
  reads as 0. A distribution is indexed (\<open>stats?.ratingDistribution[rating]\<close>),
  so a present \<open>stats\<close> without both distributions makes the render throw.
\<close>

definition decode_stats :: "json \<Rightarrow> stats option" where
  "decode_stats v =
     (case (decode_dist (obj_field v ''ratingDistribution''), decode_dist (obj_field v ''givenRatingDistribution'')) of
        (Some rd, Some gd) \<Rightarrow>
          Some \<lparr>totalBooks = case_option 0 id (json_int (obj_field v ''totalBooks'')),
                totalReviewsGiven = case_option 0 id (json_int (obj_field v ''totalReviewsGiven'')),
                totalReviewsReceived = case_option 0 id (json_int (obj_field v ''totalReviewsReceived'')),
                ratingDistribution = rd, givenRatingDistribution = gd\<rparr>
      | _ \<Rightarrow> None)"

text \<open>
  \<open>setStats(data.stats)\<close>: an absent or \<open>null\<close> field gives no stats
  (every \<open>stats?.\<close> then short-circuits); \<open>None\<close> marks a value the
  render cannot read.
\<close>

definition profile_stats :: "json option \<Rightarrow> stats option option" where
  "profile_stats v =
     (case v of None \<Rightarrow> Some None | Some JNull \<Rightarrow> Some None | Some x \<Rightarrow> map_option Some (decode_stats x))"

text \<open>
  \<open>loadProfile\<close>: without a token it returns before the \<open>try\<close>, so the
  \<open>finally\<close> that clears \<open>loading\<close> does not run. A success body without the
  fields the page reads leaves \<open>undefined\<close> behind and the render throws.
\<close>

definition load_profile :: "session \<Rightarrow> api \<Rightarrow> profile_state \<Rightarrow> profile_state \<times> effect list" where
  "load_profile sess call st =
     (if \<not> str_truthy (token sess) then (st, [])
      else
        (let op = GetProfile (the (token sess)) in
         case call op of
           Inl e \<Rightarrow> (st\<lparr>loading := False\<rparr>, [Request op, LogError e])
         | Inr d \<Rightarrow>
             (case (json_arr (obj_field d ''myBooks''), json_arr (obj_field d ''reviewsGiven''),
                    json_arr (obj_field d ''reviewsReceived''), profile_stats (obj_field d ''stats'')) of
                (Some mb, Some rg, Some rr, Some s) \<Rightarrow>
                  (st\<lparr>myBooks := mb, reviewsGiven := rg, reviewsReceived := rr, stats := s,
                      loading := False\<rparr>, [Request op])
              | _ \<Rightarrow> (st\<lparr>loading := False, crashed := True\<rparr>, [Request op]))))"

text \<open>\<open>Math.max(...Object.values(dist || {}), 1)\<close>.\<close>

definition max_value :: "(string \<times> int) list option \<Rightarrow> int" where
  "max_value d = fold max (map snd (case d of Some kvs \<Rightarrow> kvs | None \<Rightarrow> [])) 1"

text \<open>\<open>dist[rating] || 0\<close>.\<close>

definition dist_count :: "(string \<times> int) list option \<Rightarrow> int \<Rightarrow> int" where
  "dist_count d r =
     (case d of None \<Rightarrow> 0 | Some kvs \<Rightarrow> (case map_of (rev kvs) (string_of_int r) of Some c \<Rightarrow> c | None \<Rightarrow> 0))"

text \<open>The bar's width in percent: \<open>(dist[rating] || 0) / maxValue * 100\<close>.\<close>

definition bar_width :: "(string \<times> int) list option \<Rightarrow> int \<Rightarrow> rat" where
  "bar_width d r = of_int (dist_count d r) / of_int (max_value d) * 100"

text \<open>One bar: rating, width, and whether the count label is shown.\<close>

definition bars :: "(string \<times> int) list option \<Rightarrow> (int \<times> rat \<times> bool) list" where
  "bars d = map (\<lambda>r. (r, bar_width d r, dist_count d r \<noteq> 0)) [5, 4, 3, 2, 1]"

record profile_page =
  shown_totals :: "int \<times> int \<times> int"
  received_bars :: "(int \<times> rat \<times> bool) list"
  given_bars :: "(int \<times> rat \<times> bool) list"
  shown_books :: "json list"

datatype profile_screen = PSpinner | PCrashed | PPage profile_page

definition profile_render :: "profile_state \<Rightarrow> profile_screen" where
  "profile_render st =
     (if crashed st then PCrashed
      else if loading st then PSpinner
      else PPage
        \<lparr>shown_totals = (case stats st of
                           Some s \<Rightarrow> (totalBooks s, totalReviewsGiven s, totalReviewsReceived s)
                         | None \<Rightarrow> (0, 0, 0)),
         received_bars = bars (map_option ratingDistribution (stats st)),
         given_bars = bars (map_option givenRatingDistribution (stats st)),
         shown_books = myBooks st\<rparr>)"

section \<open>Lemmas\<close>

lemma fold_max_ge_start: "(a::int) \<le> fold max xs a"
proof (induction xs arbitrary: a)
  case Nil
  then show ?case by simp
next
  case (Cons x xs)
  have "max x a \<le> fold max xs (max x a)" by (rule Cons.IH)
  then show ?case by simp
qed

lemma fold_max_ge_member: "(x::int) \<in> set xs \<Longrightarrow> x \<le> fold max xs a"
proof (induction xs arbitrary: a)
  case Nil
  then show ?case by simp
next
  case (Cons y xs)
  show ?case
  proof (cases "x = y")
    case True
    have "max y a \<le> fold max xs (max y a)" by (rule fold_max_ge_start)
    with True show ?thesis by simp
  next
    case False
    with Cons.prems have "x \<in> set xs" by simp
    then show ?thesis using Cons.IH by simp
  qed
qed

lemma fold_max_le: "(a::int) \<le> c \<Longrightarrow> \<forall>x \<in> set xs. x \<le> c \<Longrightarrow> fold max xs a \<le> c"
  by (induction xs arbitrary: a) auto

lemma max_value_pos: "1 \<le> max_value d"
  by (simp add: max_value_def fold_max_ge_start)

lemma dist_count_le_max: "dist_count d r \<le> max_value d"
proof (cases d)
  case None
  then show ?thesis by (simp add: dist_count_def max_value_def)
next
  case (Some kvs)
  note d = this
  show ?thesis
  proof (cases "map_of (rev kvs) (string_of_int r)")
    case None
    with d show ?thesis using max_value_pos [of d] by (simp add: dist_count_def)
  next
    case (Some c)
    then have "(string_of_int r, c) \<in> set kvs" by (auto dest: map_of_SomeD)
    then have "c \<in> set (map snd kvs)" by force
    with d Some show ?thesis by (simp add: dist_count_def max_value_def fold_max_ge_member)
  qed
qed

lemma dist_count_nonneg:
  "\<forall>kv \<in> set (case d of Some kvs \<Rightarrow> kvs | None \<Rightarrow> []). 0 \<le> snd kv \<Longrightarrow> 0 \<le> dist_count d r"
  by (auto simp: dist_count_def split: option.split dest!: map_of_SomeD)

section \<open>Properties of the profile page\<close>

text \<open>
  C32: every bar of a distribution chart has a width between 0 and 100
  percent when the counts are not negative, and the bar of a rating whose
  count is the largest of the distribution (and at least 1) is full: the bars
  are scaled to the largest count, not to the total, and the divisor
  \<open>Math.max(..., 1)\<close> is at least every count.
\<close>

theorem bar_width_bounded:
  assumes "\<forall>kv \<in> set kvs. 0 \<le> snd kv"
  shows "0 \<le> bar_width (Some kvs) r \<and> bar_width (Some kvs) r \<le> 100 \<and>
         (1 \<le> dist_count (Some kvs) r \<and> (\<forall>kv \<in> set kvs. snd kv \<le> dist_count (Some kvs) r) \<longrightarrow>
            bar_width (Some kvs) r = 100)"
proof -
  let ?d = "Some kvs"
  have m: "(1::rat) \<le> of_int (max_value ?d)" using max_value_pos [of ?d] by simp
  have c0: "(0::rat) \<le> of_int (dist_count ?d r)" using dist_count_nonneg [of ?d] assms by simp
  have cm: "(of_int (dist_count ?d r)::rat) \<le> of_int (max_value ?d)" using dist_count_le_max [of ?d r] by simp
  let ?q = "of_int (dist_count ?d r) / (of_int (max_value ?d) :: rat)"
  have w: "bar_width ?d r = ?q * 100" by (simp only: bar_width_def)
  have q1: "?q \<le> 1" using m cm by (simp add: divide_le_eq_1)
  have q0: "0 \<le> ?q" using m c0 by simp
  have "?q * 100 \<le> 1 * 100" using q1 by (rule mult_right_mono) simp
  moreover have "0 \<le> ?q * 100" using q0 by (rule mult_nonneg_nonneg) simp
  moreover have "?q = 1" if "1 \<le> dist_count ?d r" "\<forall>kv \<in> set kvs. snd kv \<le> dist_count ?d r"
  proof -
    have "max_value ?d \<le> dist_count ?d r" using that by (auto simp: max_value_def intro!: fold_max_le)
    then have "max_value ?d = dist_count ?d r" using dist_count_le_max [of ?d r] by simp
    then show ?thesis using m by simp
  qed
  ultimately show ?thesis by (simp only: w) simp
qed

theorem bar_width_bounded_witness:
  "bar_width (Some [(''5'', 3), (''4'', 1)]) 5 = 100 \<and> bar_width (Some [(''5'', 3), (''4'', 1)]) 4 \<le> 100"
proof -
  have h: "\<forall>kv \<in> set [(''5'', 3::int), (''4'', 1)]. 0 \<le> snd kv" by simp
  have "1 \<le> dist_count (Some [(''5'', 3), (''4'', 1)]) 5 \<and>
        (\<forall>kv \<in> set [(''5'', 3), (''4'', 1)]. snd kv \<le> dist_count (Some [(''5'', 3), (''4'', 1)]) 5)"
    by code_simp
  then show ?thesis using bar_width_bounded [OF h, of 5] bar_width_bounded [OF h, of 4] by simp
qed

text \<open>
  C33: without a (truthy) token \<open>loadProfile\<close> returns before its
  \<open>try\<close>: no request is made, \<open>loading\<close> is never cleared and the page
  shows its spinner for good.
\<close>

theorem profile_no_token_spinner:
  "\<not> str_truthy (token sess) \<Longrightarrow>
     load_profile sess call profile_init = (profile_init, []) \<and>
     profile_render (fst (load_profile sess call profile_init)) = PSpinner"
  by (simp add: load_profile_def profile_render_def profile_init_def)

theorem profile_no_token_spinner_witness:
  "load_profile \<lparr>user = None, token = Some []\<rparr> (\<lambda>_. Inl FetchFailed) profile_init = (profile_init, [])"
  using profile_no_token_spinner [of "\<lparr>user = None, token = Some []\<rparr>"] by simp

text \<open>
  C34: when \<open>getProfile\<close> fails the error is only logged: the page
  renders zero totals, empty bars and no books rather than an error message.
\<close>

theorem profile_load_failure_zero:
  assumes "str_truthy (token sess)" and "call (GetProfile (the (token sess))) = Inl e"
  shows "profile_render (fst (load_profile sess call profile_init)) =
           PPage \<lparr>shown_totals = (0, 0, 0),
                  received_bars = [(5, 0, False), (4, 0, False), (3, 0, False), (2, 0, False), (1, 0, False)],
                  given_bars = [(5, 0, False), (4, 0, False), (3, 0, False), (2, 0, False), (1, 0, False)],
                  shown_books = []\<rparr>"
  using assms by (simp add: load_profile_def profile_render_def profile_init_def bars_def bar_width_def dist_count_def)
theorem profile_load_failure_zero_witness:
  "profile_render (fst (load_profile \<lparr>user = None, token = Some ''tk''\<rparr> (\<lambda>_. Inl FetchFailed) profile_init)) =
     PPage \<lparr>shown_totals = (0, 0, 0),
                  received_bars = [(5, 0, False), (4, 0, False), (3, 0, False), (2, 0, False), (1, 0, False)],
                  given_bars = [(5, 0, False), (4, 0, False), (3, 0, False), (2, 0, False), (1, 0, False)],
                  shown_books = []\<rparr>"
  using profile_load_failure_zero [of "\<lparr>user = None, token = Some ''tk''\<rparr>" "\<lambda>_. Inl FetchFailed" FetchFailed]
  by simp


end
