(* ===== verification/BookCard.thy ===== *)
theory BookCard
  imports Book_Form Routes
begin

text \<open>
  The book card of \<open>src/src/components/BookCard.tsx\<close>, rendered by the list
  of \<open>Home.tsx\<close> as \<open><BookCard id={book._id} {...book}/>\<close>. Its props are
  TypeScript numbers and strings; a field the book object lacks is
  \<open>undefined\<close> (\<open>None\<close>), which React renders as nothing. A number is a
  rational here: the card only compares, prints and rounds it. The card shows
  the cover (a fixed placeholder once the image fails to load), title,
  author, genre, the average rating with \<open>toFixed(1)\<close> or \<open>N/A\<close>, and the
  review count, and navigates to the book's page when clicked.
\<close>

record card_props =
  card_id :: "string option"
  card_title :: "string option"
  card_author :: "string option"
  card_genre :: "string option"
  card_imageUrl :: "string option"
  card_averageRating :: "rat option"
  card_reviewCount :: "int option"

text \<open>
  The props \<open>Home\<close> passes for one book of the list. The spread
  \<open>{...book}\<close> comes after \<open>id={book._id}\<close>, so a book's own \<open>id\<close>
  field overrides the prop. The card only prints \<open>id\<close> in a template
  literal, so it is kept as \<open>String(id)\<close>.
\<close>

definition card_props_of :: "json \<Rightarrow> card_props" where
  "card_props_of b =
     \<lparr>card_id = map_option js_to_string
                   (case obj_field b ''id'' of Some v \<Rightarrow> Some v | None \<Rightarrow> obj_field b ''_id''),
      card_title = json_str (obj_field b ''title''),
      card_author = json_str (obj_field b ''author''), card_genre = json_str (obj_field b ''genre''),
      card_imageUrl = json_str (obj_field b ''imageUrl''),
      card_averageRating = map_option of_int (json_int (obj_field b ''averageRating'')),
      card_reviewCount = json_int (obj_field b ''reviewCount'')\<rparr>"

text \<open>
  \<open>Number.prototype.toFixed(1)\<close>: the sign, then the integer \<open>n\<close> closest
  to \<open>10 * |x|\<close> (the larger one on a tie) written as \<open>n div 10\<close>, a point and
  the digit \<open>n mod 10\<close>. This is the specification's algorithm below
  \<open>10^21\<close>, where \<open>toFixed\<close> switches to exponent notation; a rating never
  comes near that bound.
\<close>

definition fixed1_abs :: "rat \<Rightarrow> string" where
  "fixed1_abs x =
     (let n = nat \<lfloor>10 * x + 1 / 2\<rfloor> in string_of_nat (n div 10) @ ''.'' @ string_of_nat (n mod 10))"

definition to_fixed1 :: "rat \<Rightarrow> string" where
  "to_fixed1 x = (if x < 0 then CHR ''-'' # fixed1_abs (- x) else fixed1_abs x)"

text \<open>\<open>averageRating > 0 ? averageRating.toFixed(1) : 'N/A'\<close>; \<open>undefined > 0\<close> is false.\<close>

definition rating_label :: "rat option \<Rightarrow> string" where
  "rating_label r = (case r of Some x \<Rightarrow> if 0 < x then to_fixed1 x else ''N/A'' | None \<Rightarrow> ''N/A'')"

definition fallback_image :: string where
  "fallback_image = ''https://images.pexels.com/photos/1301585/pexels-photo-1301585.jpeg?auto=compress&cs=tinysrgb&w=400''"

record card_view =
  card_src :: string
  card_shown_title :: string
  card_shown_author :: string
  card_shown_genre :: string
  card_shown_rating :: string
  card_shown_count :: string

text \<open>
  The rendered card; \<open>img_failed\<close> says whether the image's \<open>onError\<close> has
  fired, which replaces its source by the placeholder.
\<close>

definition book_card :: "card_props \<Rightarrow> bool \<Rightarrow> card_view" where
  "book_card p img_failed =
     \<lparr>card_src = (if img_failed then fallback_image else case_option [] id (card_imageUrl p)),
      card_shown_title = case_option [] id (card_title p),
      card_shown_author = case_option [] id (card_author p),
      card_shown_genre = case_option [] id (card_genre p),
      card_shown_rating = rating_label (card_averageRating p),
      card_shown_count = ''('' @ case_option [] string_of_int (card_reviewCount p) @ '')''\<rparr>"

text \<open>\<open>onClick={() => navigate(`/book/${id}`)}\<close>; \<open>undefined\<close> prints as such.\<close>

definition card_click :: "card_props \<Rightarrow> effect list" where
  "card_click p = [GoTo (''/book/'' @ case_option ''undefined'' id (card_id p))]"

section \<open>Lemmas\<close>

lemma dec_value_snoc: "dec_value (s @ [c]) = dec_value s * 10 + (of_char c - 48)"
  by (simp add: dec_value_def digits_value_snoc)

lemma string_of_nat_digit: "d < 10 \<Longrightarrow> string_of_nat d = [char_of (48 + d)]"
  by (simp add: string_of_nat.simps)

lemma html_float_fixed1:
  "html_float (string_of_nat q @ ''.'' @ string_of_nat (d::nat)) = Some (of_nat (10 * q + d) / 10)"
  if "d < 10"
proof -
  let ?ip = "string_of_nat q" and ?c = "char_of (48 + d)"
  have ip: "list_all is_digit ?ip" "?ip \<noteq> []" by (simp_all add: string_of_nat_digits string_of_nat_nonempty)
  obtain c0 t where c0: "?ip = c0 # t" using ip(2) by (cases ?ip) auto
  have "c0 \<noteq> CHR ''-''" using ip(1) c0 by (auto simp: is_digit_def)
  moreover have dot: "\<not> is_digit CHR ''.''" by (simp add: is_digit_def)
  moreover have "takeWhile is_digit (?ip @ ''.'' @ [?c]) = ?ip"
    "dropWhile is_digit (?ip @ ''.'' @ [?c]) = ''.'' @ [?c]"
    using ip(1) dot by (simp_all add: list_all_iff takeWhile_append2 dropWhile_append2)
  moreover have "is_digit ?c" using that by (rule is_digit_char)
  moreover have "dec_value (?ip @ [?c]) = q * 10 + d"
    using that by (simp add: dec_value_snoc dec_value_string_of_nat of_char_digit)
  ultimately show ?thesis using that c0 by (simp add: html_float_def string_of_nat_digit)
qed

lemma match_route_book:
  "i \<noteq> [] \<Longrightarrow> CHR ''/'' \<notin> set i \<Longrightarrow> match_route (''/book/'' @ i) = Some (RBook i)"
  using match_route_two [of "''book''" i] by (simp add: seg_is_def lower_ascii_def)

section \<open>Properties of the card\<close>

text \<open>
  C35: the rating a card prints for a positive average is a decimal number
  (a valid floating-point number) within 0.05 of the average: \<open>toFixed(1)\<close>
  rounds to the nearest tenth.
\<close>

theorem rating_label_roundtrip:
  assumes "0 < x"
  shows "\<exists>v. html_float (rating_label (Some x)) = Some v \<and> \<bar>v - x\<bar> \<le> 1 / 20"
proof -
  define n where "n = nat \<lfloor>10 * x + 1 / 2\<rfloor>"
  have n: "(of_nat n :: rat) = of_int \<lfloor>10 * x + 1 / 2\<rfloor>" using assms unfolding n_def by simp
  have lo: "10 * x + 1 / 2 - 1 < of_nat n" and hi: "of_nat n \<le> 10 * x + 1 / 2"
  proof -
    have "10 * x + 1 / 2 < of_int (\<lfloor>10 * x + 1 / 2\<rfloor> + 1)" using floor_correct ..
    then have "10 * x + 1 / 2 < of_int \<lfloor>10 * x + 1 / 2\<rfloor> + 1" by simp
    then show "10 * x + 1 / 2 - 1 < of_nat n" "of_nat n \<le> 10 * x + 1 / 2"
      using n of_int_floor_le [of "10 * x + 1 / 2"] by linarith+
  qed
  have "html_float (rating_label (Some x)) = Some (of_nat n / 10)"
    using assms html_float_fixed1 [of "n mod 10" "n div 10"]
    by (simp add: rating_label_def to_fixed1_def fixed1_abs_def n_def [symmetric])
  moreover have "- (1 / 20) \<le> of_nat n / 10 - x" "of_nat n / 10 - x \<le> 1 / 20"
    using lo hi by (simp_all add: field_simps)
  then have "\<bar>of_nat n / 10 - x\<bar> \<le> 1 / 20" by (intro abs_leI) (simp_all add: minus_le_iff)
  ultimately show ?thesis by blast
qed

theorem rating_label_roundtrip_witness:
  "rating_label (Some (9 / 2)) = ''4.5'' \<and>
   (\<exists>v. html_float (rating_label (Some (9 / 2))) = Some v \<and> \<bar>v - 9 / 2\<bar> \<le> 1 / 20)"
proof
  show "rating_label (Some (9 / 2)) = ''4.5''" by code_simp
  show "\<exists>v. html_float (rating_label (Some (9 / 2))) = Some v \<and> \<bar>v - 9 / 2\<bar> \<le> 1 / 20"
    using rating_label_roundtrip [of "9 / 2"] by simp
qed

text \<open>
  C36: clicking the card of a book with an id navigates to \<open>/book/<id>\<close>,
  and that path renders the book's detail page whatever the session, since
  the detail route is not protected.
\<close>

theorem card_opens_detail:
  assumes "card_id p = Some i" and "i \<noteq> []" and "CHR ''/'' \<notin> set i"
  shows "card_click p = [GoTo (''/book/'' @ i)] \<and> app_routes a (''/book/'' @ i) = Render (BookDetailView i)"
proof
  show "card_click p = [GoTo (''/book/'' @ i)]" using assms(1) by (simp add: card_click_def)
  have "match_route (''/book/'' @ i) = Some (RBook i)" using assms(2,3) by (rule match_route_book)
  then show "app_routes a (''/book/'' @ i) = Render (BookDetailView i)" by (simp add: app_routes_match)
qed

theorem card_opens_detail_witness:
  "card_click (card_props_of (JObj [(''_id'', JStr ''b7''), (''title'', JStr ''Dune'')])) = [GoTo ''/book/b7''] \<and>
   app_routes False ''/book/b7'' = Render (BookDetailView ''b7'')"
proof -
  have "card_id (card_props_of (JObj [(''_id'', JStr ''b7''), (''title'', JStr ''Dune'')])) = Some ''b7''"
    by (simp add: card_props_of_def field_defs)
  from card_opens_detail [OF this, of False] show ?thesis by simp
qed

end
