(* ===== verification/Spec2Isabelle.thy ===== *)
theory Spec2Isabelle
  imports Navbar Home Book_Detail Book_Form Profile BookCard
begin

text \<open>
  \<^bold>\<open>A verification library for the book-review client.\<close>
  The program is a React single-page application (\<open>src/src\<close>): a router
  with a guard (\<open>App.tsx\<close>), a navigation bar (\<open>components/Navbar.tsx\<close>),
  four pages (\<open>pages/Home.tsx\<close>, \<open>BookDetail.tsx\<close>, \<open>BookForm.tsx\<close>,
  \<open>Profile.tsx\<close>), a card component (\<open>components/BookCard.tsx\<close>) and an
  HTTP client (\<open>utils/api.ts\<close>) through which every page reaches the
  server. The session store \<open>AuthContext\<close> that the pages and the guard read
  is not part of the sources and is modelled from the specification. The
  pages interact only through the session, through the client, and through
  navigation.

  \<^bold>\<open>Modelling conventions.\<close> The development is a shallow embedding.
  JSON values are the datatype \<^typ>\<open>json\<close>; the server is a function from
  requests to responses (\<open>None\<close>: \<open>fetch\<close> rejects), so every theorem holds
  for every server. A component's state (its \<open>useState\<close> hooks) is a record;
  a handler is a function from the state to the new state and the list of
  effects it performs in order (\<^typ>\<open>effect\<close>: requests, alerts,
  confirmations, navigation, logging). A thrown exception is a value of a sum
  type. A response body is read as the code reads it: a \<open>null\<close> body that
  throws inside a \<open>try\<close> is logged, and a body on which the next render
  throws sets the \<open>crashed\<close> flag of the state. Bodies whose fields have
  other types than the page expects, in ways that neither throw nor are
  rendered the same, are outside the model and also set \<open>crashed\<close>; each
  page theory says which. An \<open>await\<close> is modelled as finishing before the
  next event: interleavings of handlers with pending responses are not
  modelled.

  \<^bold>\<open>Theories.\<close>
  \<^item> \<open>Prelude\<close>: the named fact collections, truthiness of optional
    strings, \<open>join\<close>, generic lemmas on sums and \<open>find\<close>.
  \<^item> \<open>Json\<close>: JSON values and the JavaScript operations the code applies to
    them: property access (\<open>null.x\<close> throws, the last duplicate key wins),
    the entries of a parsed object, truthiness and \<open>||\<close>, \<open>String(v)\<close>,
    decimal printing of integers and \<open>parseInt\<close> (white space, sign, \<open>0x\<close>
    prefix, longest digit prefix). It proves that \<open>parseInt\<close> reads back
    every printed integer.
  \<^item> \<open>Api_Client\<close> (\<open>utils/api.ts\<close>): \<open>getHeaders\<close> and every method of
    \<open>api\<close> as a constructor of \<^typ>\<open>api_op\<close>. \<open>op_request\<close> is the request a
    method sends. \<open>op_check\<close> is its response handling: the error-body path
    of \<open>login\<close>/\<open>signup\<close>/create/update/delete, and the fixed-message path of
    \<open>getBooks\<close>/\<open>getBook\<close>/\<open>getProfile\<close>. \<open>api_call\<close> composes them with
    the server. The pages take the client as a parameter of type \<^typ>\<open>api\<close>.
    C6 to C11 describe every branch of a response that arrives (success,
    error message, fallback, non-JSON body, \<open>null\<close> body, fixed message);
    a rejected \<open>fetch\<close> is the error \<open>FetchFailed\<close>.
  \<^item> \<open>Session\<close> (spec section 4.1): the store as a record of the session in
    memory and in storage, with \<open>login\<close>, \<open>signup\<close>, \<open>logout\<close> and the
    restore done at start-up. The inductive relation \<open>auth_step\<close> is the store
    as a state machine; the invariant \<open>auth_inv\<close> is proved by rule induction
    over \<open>auth_reachable\<close>.
  \<^item> \<open>Routes\<close> (\<open>App.tsx\<close>): the route table matched as React Router v6
    does (segment by segment after the leading slash, trailing slashes
    ignored, static segments case-insensitive, \<open>:id\<close> a non-empty segment),
    \<open>ProtectedRoute\<close> and \<open>navigate\<close>, which follows redirects. \<open>navigate\<close>
    is bounded by fuel; C12 shows that a fuel of 2 is always enough, because
    the only redirect target, \<open>/login\<close>, is not protected.
  \<^item> \<open>Navbar\<close>: the buttons shown per session, their targets, and logout.
  \<^item> \<open>Ui\<close>: the effect datatype the page handlers share.
  \<^item> \<open>Home\<close>: \<open>loadBooks\<close>, the effect that reloads when \<open>currentPage\<close>
    changes, the pagination controls and the render. The effect is a loop
    whose length depends on the server, so \<open>home_effect\<close> takes fuel: the
    result is \<open>None\<close> when the fuel runs out. C17 shows that 2 loads suffice
    when the server never moves a page it named; C18 shows that no fuel
    suffices when the server moves the page.
  \<^item> \<open>Book_Detail\<close>: the book and review records, \<open>loadBook\<close>, the submit,
    delete, edit and cancel handlers with their effects, the form's submit
    button, and the render's affordances: owner controls, the review form and
    its mode, per-review controls.
  \<^item> \<open>Book_Form\<close>: the edit load, the request body \<open>bookData\<close>, create or
    update, and the browser's constraint validation of the fields. The year
    check parses the HTML valid floating-point number over the rationals.
  \<^item> \<open>Profile\<close>: \<open>loadProfile\<close>, the totals, the two rating charts (bar
    width and label) and the book list.
  \<^item> \<open>BookCard\<close>: the props \<open>Home\<close> passes (a book's own \<open>id\<close> overrides
    \<open>_id\<close>), the rendered card, the rating label with \<open>toFixed(1)\<close> and the
    click target. The rating is a rational prop (the list only passes the
    integers of the JSON model); \<open>toFixed\<close> rounds the exact value, not its
    binary double, and is modelled below \<open>10^21\<close>.
  \<^item> This theory: the properties spanning the session store, the navbar and
    the guard (C3, C4).

  \<^bold>\<open>What the claims show.\<close> Access control: C1 and C2 (the guard and
  the routes it protects), C12 (redirects end) and C13 (the navbar's
  buttons). The session's life cycle: C3 (the store's invariant over every
  reachable state) and C4 (a reload keeps the session). The client's
  contract: C5 (the Authorization header) and C6 to C11 (the response
  branches). The pages: C14 to C19 (the edit round trip and the book list),
  C20 to C27 and C37 (the detail page's handlers and render), C28 to C31
  (the form's body, validation and submission), C32 to C34 (the profile
  page) and C35, C36 (the card).
  The findings recorded beside the development are the unreachable edit form
  (C24), the stale edit state after a delete (C25), the \<open>parseInt\<close> of a
  \<open>type=number\<close> year (C28), the reload loop (C18), the spinner that stays
  without a token (C33), and the two error bodies for which the client does
  not fall back to the generic message (C7, C11).

  \<^bold>\<open>Not modelled.\<close>
  \<^item> Styling, icons and the theme context, which are display only.
  \<^item> The Login and Signup pages, which are not in the sources; they call the
    store's \<open>login\<close>/\<open>signup\<close>, which are modelled.
  \<^item> Percent-decoding of URLs.
  \<^item> The serialisation of request bodies by \<open>JSON.stringify\<close>: a body is the
    JSON value itself.
  \<^item> Fractional JSON numbers: numbers are unbounded integers. A rating or
    count the server sends as a fraction is outside the model, and so is the
    loss of precision of \<open>parseInt\<close> on more than 15 digits.
  \<^item> Characters beyond an 8-bit \<^typ>\<open>char\<close>: strings are Latin-1.
  \<^item> Concurrency between pending requests and later events.
\<close>

section \<open>Fixtures for the witnesses\<close>

text \<open>A server that accepts every login with one user and the token \<open>tk\<close>.\<close>

abbreviation demo_auth_body :: json where
  "demo_auth_body \<equiv> JObj [(''user'', JObj [(''id'', JStr ''u1''), (''username'', JStr ''ann''),
      (''email'', JStr ''ann@example.org'')]), (''token'', JStr ''tk'')]"

abbreviation demo_server :: server where
  "demo_server \<equiv> \<lambda>_. Some \<lparr>status = 200, resp_body = Some demo_auth_body\<rparr>"

abbreviation demo_user :: user where
  "demo_user \<equiv> \<lparr>user_id = ''u1'', user_name = ''ann'', user_email = ''ann@example.org''\<rparr>"

section \<open>Lemmas on the fixtures\<close>

lemma demo_login_call:
  "api_call demo_server (Login e p) = Inr demo_auth_body"
  by (simp add: checked_body_def res_ok_def read_json_def)

lemma demo_decode: "decode_auth demo_auth_body = Some (demo_user, ''tk'')"
  by (simp add: decode_auth_def decode_user_def obj_field_def json_str_def)

lemma demo_login_state:
  "fst (auth_login demo_server e p st) = adopt demo_user ''tk'' st"
  by (simp add: auth_login_def authenticate_success [OF demo_login_call demo_decode])

lemma demo_reachable: "auth_reachable (adopt demo_user ''tk'' auth_init)"
  using auth_reachable.step [OF auth_reachable.init auth_step.login [of auth_init demo_server]]
  by (simp add: demo_login_state)

section \<open>Properties spanning the session store, the navbar and the guard\<close>

text \<open>
  C3: in every state the session store can reach, the user and the token are
  present together, storage holds exactly the authenticated session, and so
  the navigation bar of an authenticated session shows the user's name.
\<close>

theorem session_invariant:
  "auth_reachable st \<Longrightarrow>
     auth_inv st \<and>
     (is_authenticated (current st) \<longrightarrow>
        (\<exists>u. user (current st) = Some u \<and> navbar_username (current st) = Some (user_name u)))"
proof -
  assume "auth_reachable st"
  then have "auth_inv st" by (rule auth_reachable_inv)
  then show ?thesis
    by (auto simp: auth_inv_def wf_session_def navbar_username_def is_authenticated_def)
qed

theorem session_invariant_witness:
  "auth_inv (adopt demo_user ''tk'' auth_init) \<and>
   navbar_username (current (adopt demo_user ''tk'' auth_init)) = Some ''ann''"
  using session_invariant [OF demo_reachable] by (auto simp: is_authenticated_def)

text \<open>
  C4: reloading the application restores the session it had, so the route
  guard decides every path as before the reload.
\<close>

theorem reload_preserves_session:
  "auth_reachable st \<Longrightarrow>
     restart st = st \<and>
     app_routes (is_authenticated (current (restart st))) p = app_routes (is_authenticated (current st)) p"
  by (simp add: auth_inv_restart auth_reachable_inv)

theorem reload_preserves_session_witness:
  "restart (adopt demo_user ''tk'' auth_init) = adopt demo_user ''tk'' auth_init"
  using reload_preserves_session [OF demo_reachable] by simp
end
